theory Spec2Isabelle
  imports Complex_Main "HOL-Library.Sublist" "HOL-Library.AList" "HOL-Library.Word"
begin

section \<open>The execution engine and the static-analysis pipeline of the coding mentor\<close>

text \<open>
  The development embeds the functions of \<^verbatim>\<open>app.py\<close> that run user code
  (\<^verbatim>\<open>execute_python_code\<close>, \<^verbatim>\<open>execute_javascript_code\<close>,
  \<^verbatim>\<open>execute_java_code\<close>) and the functions of \<^verbatim>\<open>code_analyzer.py\<close>
  (\<^verbatim>\<open>analyze_python_code\<close> and the steps it calls).

  A Python \<^verbatim>\<open>str\<close> is the list of its code points, each a natural number; the
  text of a literal of the code is written \<open>lit ''...''\<close>. Raw output of a child
  process is a list of bytes.
\<close>

type_synonym bytes = "8 word list"

type_synonym str = "nat list"

definition lit :: "string \<Rightarrow> str" where
  "lit s = map of_char s"

subsection \<open>Exceptions and outcomes\<close>

text \<open>
  The exception classes that some \<^verbatim>\<open>except\<close> clause of the code tells apart, each
  with the text that \<^verbatim>\<open>str(e)\<close> gives. \<open>OtherError\<close> stands for every other
  subclass of \<^verbatim>\<open>Exception\<close> (\<^verbatim>\<open>OSError\<close>, \<^verbatim>\<open>PermissionError\<close>,
  \<^verbatim>\<open>UnicodeEncodeError\<close>, \<^verbatim>\<open>SyntaxError\<close>, ...).
\<close>

datatype exn =
    TimeoutExpired str
  | UnicodeDecodeError str
  | FileNotFoundError str
  | JSONDecodeError str
  | TypeError str
  | AttributeError str
  | OtherError str

fun str_exn :: "exn \<Rightarrow> str" where
  "str_exn (TimeoutExpired m) = m"
| "str_exn (UnicodeDecodeError m) = m"
| "str_exn (FileNotFoundError m) = m"
| "str_exn (JSONDecodeError m) = m"
| "str_exn (TypeError m) = m"
| "str_exn (AttributeError m) = m"
| "str_exn (OtherError m) = m"

text \<open>
  A call returns a value, raises an exception, or never returns (it waits for a child
  process that was launched without a time limit and does not exit).
\<close>

datatype 'a outcome = Return 'a | Raise exn | Hang

subsection \<open>The world outside the program\<close>

text \<open>
  What a launched child process does: it exits after some seconds of wall-clock time with
  an exit code and the bytes it wrote to standard output and standard error; or it never
  exits; or \<^verbatim>\<open>subprocess.run\<close> itself raises (\<^verbatim>\<open>FileNotFoundError\<close> when
  the binary is not on the path, \<^verbatim>\<open>UnicodeDecodeError\<close> when decoding the captured
  output fails, ...).
\<close>

datatype child =
    Exits real int bytes bytes
  | Forever
  | Raises exn

text \<open>
  The world is the file system (regular files with their text, directories), together with
  what the environment will do next: the names the temp-name allocator hands out, the
  faults of the coming file-system operations (\<open>None\<close>: the operation succeeds), and the
  behaviour of the coming child processes. Position \<open>0\<close> is the next one; an operation
  that consumes an entry shifts the rest down. \<open>launched\<close> records every child
  launched so far, oldest first: its argument vector and whether the launch ended because
  its time limit was reached. Child processes are taken not to touch the temporary
  artifacts.
\<close>

record launch =
  argv :: "str list"
  expired :: bool

record world =
  files :: "str \<rightharpoonup> str"
  dirs :: "str set"
  tmp_names :: "nat \<Rightarrow> str"
  io_faults :: "nat \<Rightarrow> exn option"
  children :: "nat \<Rightarrow> child"
  launched :: "launch list"

type_synonym 'a prog = "world \<Rightarrow> 'a outcome \<times> world"

definition ret :: "'a \<Rightarrow> 'a prog" where
  "ret x = (\<lambda>w. (Return x, w))"

definition bind :: "'a prog \<Rightarrow> ('a \<Rightarrow> 'b prog) \<Rightarrow> 'b prog" where
  "bind m f = (\<lambda>w. case m w of
      (Return x, w') \<Rightarrow> f x w'
    | (Raise e, w') \<Rightarrow> (Raise e, w')
    | (Hang, w') \<Rightarrow> (Hang, w'))"

text \<open>\<^verbatim>\<open>try: m except Exception as e: h(e)\<close>\<close>

definition catch :: "'a prog \<Rightarrow> (exn \<Rightarrow> 'a prog) \<Rightarrow> 'a prog" where
  "catch m h = (\<lambda>w. case m w of
      (Raise e, w') \<Rightarrow> h e w'
    | r \<Rightarrow> r)"

text \<open>
  \<^verbatim>\<open>try: m finally: c\<close>. The clean-up runs after a return and after an exception;
  an exception of the clean-up replaces the outcome of the body.
\<close>

definition try_finally :: "'a prog \<Rightarrow> unit prog \<Rightarrow> 'a prog" where
  "try_finally m c = (\<lambda>w. case m w of
      (Return x, w') \<Rightarrow> (case c w' of
          (Return u, w'') \<Rightarrow> (Return x, w'')
        | (Raise e, w'') \<Rightarrow> (Raise e, w'')
        | (Hang, w'') \<Rightarrow> (Hang, w''))
    | (Raise e, w') \<Rightarrow> (case c w' of
          (Return u, w'') \<Rightarrow> (Raise e, w'')
        | (Raise e', w'') \<Rightarrow> (Raise e', w'')
        | (Hang, w'') \<Rightarrow> (Hang, w''))
    | (Hang, w') \<Rightarrow> (Hang, w'))"

subsection \<open>File-system primitives\<close>

text \<open>Every file-system operation first meets the next fault of the environment.\<close>

definition io_fault :: "unit prog" where
  "io_fault = (\<lambda>w.
     let w' = w\<lparr>io_faults := (\<lambda>n. io_faults w (Suc n))\<rparr>
     in case io_faults w 0 of None \<Rightarrow> (Return (), w') | Some e \<Rightarrow> (Raise e, w'))"

definition no_such_file :: "str \<Rightarrow> exn" where
  "no_such_file path =
     FileNotFoundError (lit ''[Errno 2] No such file or directory: '' @ [39] @ path @ [39])"

text \<open>
  \<^verbatim>\<open>tempfile.NamedTemporaryFile(mode='w', suffix=..., delete=False, encoding='utf-8')\<close>:
  a new empty file under a name of the allocator.
\<close>

definition named_temporary_file :: "str \<Rightarrow> str prog" where
  "named_temporary_file sfx = bind io_fault (\<lambda>_ w.
     let name = tmp_names w 0 @ sfx
     in (Return name,
         w\<lparr>tmp_names := (\<lambda>n. tmp_names w (Suc n)), files := (files w)(name \<mapsto> [])\<rparr>))"

text \<open>\<^verbatim>\<open>f.write(text)\<close> and the close of the file, for a file opened for writing.\<close>

definition write_text :: "str \<Rightarrow> str \<Rightarrow> unit prog" where
  "write_text path text = bind io_fault (\<lambda>_ w.
     (Return (), w\<lparr>files := (files w)(path \<mapsto> text)\<rparr>))"

text \<open>\<^verbatim>\<open>with open(path, 'r', encoding='utf-8') as f: f.read()\<close>\<close>

definition read_text :: "str \<Rightarrow> str prog" where
  "read_text path = bind io_fault (\<lambda>_ w.
     case files w path of
       None \<Rightarrow> (Raise (no_such_file path), w)
     | Some text \<Rightarrow> (Return text, w))"

definition os_unlink :: "str \<Rightarrow> unit prog" where
  "os_unlink path = bind io_fault (\<lambda>_ w.
     case files w path of
       None \<Rightarrow> (Raise (no_such_file path), w)
     | Some text \<Rightarrow> (Return (), w\<lparr>files := (files w)(path := None)\<rparr>))"

definition os_path_exists :: "str \<Rightarrow> bool prog" where
  "os_path_exists path = (\<lambda>w. (Return (files w path \<noteq> None \<or> path \<in> dirs w), w))"

definition mkdtemp :: "str prog" where
  "mkdtemp = bind io_fault (\<lambda>_ w.
     let d = tmp_names w 0
     in (Return d, w\<lparr>tmp_names := (\<lambda>n. tmp_names w (Suc n)), dirs := insert d (dirs w)\<rparr>))"

definition os_path_join :: "str \<Rightarrow> str \<Rightarrow> str" where
  "os_path_join d name = d @ lit ''/'' @ name"

text \<open>\<^verbatim>\<open>shutil.rmtree(d)\<close>: the directory and every file below it.\<close>

definition shutil_rmtree :: "str \<Rightarrow> unit prog" where
  "shutil_rmtree d = bind io_fault (\<lambda>_ w.
     if d \<in> dirs w
     then (Return (), w\<lparr>dirs := dirs w - {d},
                          files := (\<lambda>p. if prefix (d @ lit ''/'') p then None else files w p)\<rparr>)
     else (Raise (no_such_file d), w))"

subsection \<open>Child processes\<close>

record completed =
  returncode :: int
  stdout :: str
  stderr :: str

text \<open>
  \<^verbatim>\<open>subprocess.run(argv, capture_output=True, text=False, timeout=t)\<close>. With a time
  limit, a child that has not exited when the limit is reached is killed and
  \<^verbatim>\<open>TimeoutExpired\<close> is raised; without one the call waits for the child.
\<close>

definition timed_out :: "str list \<Rightarrow> exn" where
  "timed_out args = TimeoutExpired (lit ''Command '' @ concat args @ lit '' timed out'')"

definition log_launch :: "str list \<Rightarrow> bool \<Rightarrow> world \<Rightarrow> world" where
  "log_launch args ex w =
     w\<lparr>children := (\<lambda>n. children w (Suc n)),
       launched := launched w @ [\<lparr>argv = args, expired = ex\<rparr>]\<rparr>"

definition subprocess_run :: "str list \<Rightarrow> real option \<Rightarrow> (int \<times> bytes \<times> bytes) prog" where
  "subprocess_run args timeout = (\<lambda>w.
     case children w 0 of
       Raises e \<Rightarrow> (Raise e, log_launch args False w)
     | Forever \<Rightarrow>
         (case timeout of
            None \<Rightarrow> (Hang, log_launch args False w)
          | Some t \<Rightarrow> (Raise (timed_out args), log_launch args True w))
     | Exits d rc out err \<Rightarrow>
         (case timeout of
            None \<Rightarrow> (Return (rc, out, err), log_launch args False w)
          | Some t \<Rightarrow>
              if t < d then (Raise (timed_out args), log_launch args True w)
              else (Return (rc, out, err), log_launch args False w)))"

subsection \<open>Library functions taken as parameters\<close>

text \<open>
  Values that \<^verbatim>\<open>json.loads\<close> produces: \<^verbatim>\<open>None\<close>, booleans, numbers, strings,
  lists and dictionaries (as the list of their items, keys distinct). A \<^verbatim>\<open>float\<close>
  is a real number: rounding, infinities and NaN are not modelled.
\<close>

datatype json =
    JNull
  | JBool bool
  | JInt int
  | JFloat real
  | JStr str
  | JArr "json list"
  | JObj "(str \<times> json) list"

text \<open>
  A syntax tree of the \<^verbatim>\<open>ast\<close> module: the class of the node and its child nodes.
  Only the classes that \<^verbatim>\<open>basic_ast_analysis\<close> tests for are told apart
  (\<open>If_stmt\<close> is \<^verbatim>\<open>ast.If\<close>); \<open>OtherNode\<close> carries the name of any other
  class (\<^verbatim>\<open>Module\<close>, \<^verbatim>\<open>AsyncFunctionDef\<close>, \<^verbatim>\<open>IfExp\<close>, ...).
\<close>

datatype ast_class = FunctionDef | ClassDef | If_stmt | For | While | Try | OtherNode str

datatype node = Node ast_class "node list"

text \<open>
  The library functions the code calls and this development does not define:
  \<^verbatim>\<open>json.loads\<close>, \<^verbatim>\<open>ast.parse\<close>, and the Unicode database beyond code point
  255: whether a code point is a letter or a number (\<^verbatim>\<open>str.isalnum\<close>), and the
  value of a decimal digit.
\<close>

record pylib =
  json_loads :: "str \<Rightarrow> exn + json"
  ast_parse :: "str \<Rightarrow> exn + node"
  unicode_isalnum :: "nat \<Rightarrow> bool"
  unicode_decimal :: "nat \<Rightarrow> nat option"

subsection \<open>Decoding captured output\<close>

text \<open>
  The codec \<^verbatim>\<open>utf-8\<close> with \<^verbatim>\<open>errors='replace'\<close>, as CPython decodes: a
  well-formed sequence of one to four bytes gives its code point (sequences that are too
  long for their code point, that encode a surrogate or a code point above
  \<open>0x10FFFF\<close> are not well formed); otherwise the longest run of bytes that starts a
  well-formed sequence, or else one byte, gives the replacement character \<open>0xFFFD\<close>,
  and decoding goes on with the byte after it.
\<close>

definition is_continuation :: "nat \<Rightarrow> bool" where
  "is_continuation b = (128 \<le> b \<and> b < 192)"

fun utf8_replace_from :: "nat list \<Rightarrow> str" where
  "utf8_replace_from [] = []"
| "utf8_replace_from (b0 # rest) =
     (if b0 < 128 then b0 # utf8_replace_from rest
      else if b0 < 194 then 65533 # utf8_replace_from rest
      else if b0 < 224 then
        (case rest of
           [] \<Rightarrow> [65533]
         | b1 # r1 \<Rightarrow>
             if is_continuation b1
             then ((b0 - 192) * 64 + (b1 - 128)) # utf8_replace_from r1
             else 65533 # utf8_replace_from rest)
      else if b0 < 240 then
        (case rest of
           [] \<Rightarrow> [65533]
         | b1 # r1 \<Rightarrow>
             if \<not> is_continuation b1 \<or> (b0 = 224 \<and> b1 < 160) \<or> (b0 = 237 \<and> 160 \<le> b1)
             then 65533 # utf8_replace_from rest
             else (case r1 of
                     [] \<Rightarrow> [65533]
                   | b2 # r2 \<Rightarrow>
                       if is_continuation b2
                       then ((b0 - 224) * 4096 + (b1 - 128) * 64 + (b2 - 128))
                              # utf8_replace_from r2
                       else 65533 # utf8_replace_from r1))
      else if b0 < 245 then
        (case rest of
           [] \<Rightarrow> [65533]
         | b1 # r1 \<Rightarrow>
             if \<not> is_continuation b1 \<or> (b0 = 240 \<and> b1 < 144) \<or> (b0 = 244 \<and> 144 \<le> b1)
             then 65533 # utf8_replace_from rest
             else (case r1 of
                     [] \<Rightarrow> [65533]
                   | b2 # r2 \<Rightarrow>
                       if \<not> is_continuation b2 then 65533 # utf8_replace_from r1
                       else (case r2 of
                               [] \<Rightarrow> [65533]
                             | b3 # r3 \<Rightarrow>
                                 if is_continuation b3
                                 then ((b0 - 240) * 262144 + (b1 - 128) * 4096
                                         + (b2 - 128) * 64 + (b3 - 128))
                                        # utf8_replace_from r3
                                 else 65533 # utf8_replace_from r2)))
      else 65533 # utf8_replace_from rest)"

text \<open>\<^verbatim>\<open>b.decode('utf-8', errors='replace')\<close>\<close>

definition bytes_decode :: "bytes \<Rightarrow> str" where
  "bytes_decode b = utf8_replace_from (map unat b)"

text \<open>
  What \<^verbatim>\<open>subprocess.run(..., text=True, encoding='utf-8', errors='replace')\<close> makes
  of captured output: the bytes are decoded, then every \<^verbatim>\<open>\r\n\<close> and every other
  \<^verbatim>\<open>\r\<close> becomes \<^verbatim>\<open>\n\<close>.
\<close>

fun universal_newlines :: "str \<Rightarrow> str" where
  "universal_newlines [] = []"
| "universal_newlines [c] = [if c = 13 then 10 else c]"
| "universal_newlines (c # d # cs) =
     (if c = 13 \<and> d = 10 then 10 # universal_newlines cs
      else if c = 13 then 10 # universal_newlines (d # cs)
      else c # universal_newlines (d # cs))"

definition io_decode :: "bytes \<Rightarrow> str" where
  "io_decode b = universal_newlines (bytes_decode b)"

subsection \<open>Capturing the output of a child\<close>

text \<open>
  Every launch in the code has the same shape:
  \<^verbatim>\<open>
  try:
      result = subprocess.run(args, capture_output=True, text=True,
                              encoding='utf-8', errors='replace', timeout=t, env=env)
  except UnicodeDecodeError:
      result = subprocess.run(args, capture_output=True, text=False, timeout=t, env=env)
      stdout = result.stdout.decode('utf-8', errors='replace') if result.stdout else ""
      stderr = result.stderr.decode('utf-8', errors='replace') if result.stderr else ""
      result = MockResult(stdout, stderr, result.returncode)
  \<close>
  Some sites assign the decoded texts to the attributes of \<^verbatim>\<open>result\<close> instead of
  building a \<^verbatim>\<open>MockResult\<close>; the sites that leave \<^verbatim>\<open>stderr\<close> undecoded in
  the second branch never read it afterwards.
\<close>

definition run_text :: "str list \<Rightarrow> real option \<Rightarrow> completed prog" where
  "run_text args timeout = bind (subprocess_run args timeout) (\<lambda>(rc, out, err).
     ret \<lparr>returncode = rc, stdout = io_decode out, stderr = io_decode err\<rparr>)"

definition decode_replace :: "bytes \<Rightarrow> str" where
  "decode_replace b = (if b \<noteq> [] then bytes_decode b else [])"

definition run_bytes :: "str list \<Rightarrow> real option \<Rightarrow> completed prog" where
  "run_bytes args timeout = bind (subprocess_run args timeout) (\<lambda>(rc, out, err).
     ret \<lparr>returncode = rc, stdout = decode_replace out, stderr = decode_replace err\<rparr>)"

text \<open>\<^verbatim>\<open>try: m except UnicodeDecodeError: h\<close>\<close>

definition except_unicode :: "'a prog \<Rightarrow> 'a prog \<Rightarrow> 'a prog" where
  "except_unicode m h = (\<lambda>w. case m w of
      (Raise e, w') \<Rightarrow> (case e of UnicodeDecodeError msg \<Rightarrow> h w' | _ \<Rightarrow> (Raise e, w'))
    | r \<Rightarrow> r)"

definition run_captured :: "str list \<Rightarrow> real option \<Rightarrow> completed prog" where
  "run_captured args timeout =
     except_unicode (run_text args timeout) (run_bytes args timeout)"

subsection \<open>The execution engine\<close>

definition sys_executable :: str where
  "sys_executable = lit ''python''"

text \<open>
  The two handlers that close each of the three functions:
  \<^verbatim>\<open>
  except subprocess.TimeoutExpired:
      return "", "Error: Code execution timed out (10 seconds limit)"
  except Exception as e:
      return "", f"Error: {str(e)}"
  \<close>
\<close>

definition execution_handlers :: "exn \<Rightarrow> (str \<times> str) prog" where
  "execution_handlers e =
     (case e of
        TimeoutExpired m \<Rightarrow> ret ([], lit ''Error: Code execution timed out (10 seconds limit)'')
      | _ \<Rightarrow> ret ([], lit ''Error: '' @ str_exn e))"

definition execute_python_code :: "pylib \<Rightarrow> str \<Rightarrow> (str \<times> str) prog" where
  "execute_python_code L code =
     catch
       (bind (named_temporary_file (lit ''.py'')) (\<lambda>temp_file.
        bind (write_text temp_file code) (\<lambda>_.
        bind (run_captured [sys_executable, temp_file] (Some 10)) (\<lambda>result.
        bind (os_unlink temp_file) (\<lambda>_.
        ret (stdout result, stderr result))))))
       execution_handlers"

definition execute_javascript_code :: "pylib \<Rightarrow> str \<Rightarrow> (str \<times> str) prog" where
  "execute_javascript_code L code =
     catch
       (bind (run_captured [lit ''node'', lit ''--version''] None) (\<lambda>node_check.
        if returncode node_check \<noteq> 0
        then ret ([], lit ''Error: Node.js is not installed or not in PATH'')
        else
          bind (named_temporary_file (lit ''.js'')) (\<lambda>temp_file.
          bind (write_text temp_file code) (\<lambda>_.
          bind (run_captured [lit ''node'', temp_file] (Some 10)) (\<lambda>result.
          bind (os_unlink temp_file) (\<lambda>_.
          ret (stdout result, stderr result)))))))
       execution_handlers"

text \<open>
  \<^verbatim>\<open>re.search(r'public\s+class\s+(\w+)', code)\<close>, giving group 1 of the leftmost
  match. \<^verbatim>\<open>\s\<close> and \<^verbatim>\<open>\w\<close> are the classes of Python for a pattern of type
  \<^verbatim>\<open>str\<close>, which follow the Unicode database: the white space of
  \<^verbatim>\<open>str.isspace\<close> (the ASCII white space and separators, NEXT LINE \<open>0x85\<close>,
  NO-BREAK SPACE \<open>0xA0\<close>, and the spaces and line separators from \<open>0x1680\<close> to
  \<open>0x3000\<close>), and the underscore with the characters of \<^verbatim>\<open>str.isalnum\<close>: below
  256 these are the ASCII letters and digits, the ordinal indicators, the superscript
  digits, the micro sign, the vulgar fractions, and the letters from \<open>0xC0\<close> to
  \<open>0xFF\<close> without the multiplication and the division sign; from 256 on the library
  tells. Each \<^verbatim>\<open>\s+\<close> takes the whole run of white space (the literal after it does
  not start with white space, so giving characters back never helps), and \<^verbatim>\<open>\w+\<close>
  takes the whole run of word characters.
\<close>

definition is_space :: "nat \<Rightarrow> bool" where
  "is_space c =
     ((9 \<le> c \<and> c \<le> 13) \<or> (28 \<le> c \<and> c \<le> 32) \<or> c = 133 \<or> c = 160 \<or> c = 5760
      \<or> (8192 \<le> c \<and> c \<le> 8202) \<or> c = 8232 \<or> c = 8233 \<or> c = 8239 \<or> c = 8287
      \<or> c = 12288)"

definition is_word :: "pylib \<Rightarrow> nat \<Rightarrow> bool" where
  "is_word L c =
     (if c < 256 then
        (48 \<le> c \<and> c \<le> 57) \<or> (65 \<le> c \<and> c \<le> 90) \<or> c = 95 \<or> (97 \<le> c \<and> c \<le> 122)
        \<or> c = 170 \<or> c = 178 \<or> c = 179 \<or> c = 181 \<or> c = 185 \<or> c = 186
        \<or> (188 \<le> c \<and> c \<le> 190) \<or> (192 \<le> c \<and> c \<le> 214) \<or> (216 \<le> c \<and> c \<le> 246)
        \<or> 248 \<le> c
      else unicode_isalnum L c)"

fun strip_prefix :: "str \<Rightarrow> str \<Rightarrow> str option" where
  "strip_prefix [] s = Some s"
| "strip_prefix (p # ps) [] = None"
| "strip_prefix (p # ps) (c # cs) = (if p = c then strip_prefix ps cs else None)"

definition match_public_class :: "pylib \<Rightarrow> str \<Rightarrow> str option" where
  "match_public_class L s =
     (case strip_prefix (lit ''public'') s of
        None \<Rightarrow> None
      | Some r1 \<Rightarrow>
          if takeWhile is_space r1 = [] then None
          else (case strip_prefix (lit ''class'') (dropWhile is_space r1) of
                  None \<Rightarrow> None
                | Some r2 \<Rightarrow>
                    if takeWhile is_space r2 = [] then None
                    else if takeWhile (is_word L) (dropWhile is_space r2) = [] then None
                    else Some (takeWhile (is_word L) (dropWhile is_space r2))))"

fun search_public_class :: "pylib \<Rightarrow> str \<Rightarrow> str option" where
  "search_public_class L [] = match_public_class L []"
| "search_public_class L (c # cs) =
     (case match_public_class L (c # cs) of
        Some name \<Rightarrow> Some name
      | None \<Rightarrow> search_public_class L cs)"

text \<open>\<^verbatim>\<open>open(path, 'w', encoding='utf-8')\<close>: the file is created or emptied.\<close>

definition open_w :: "str \<Rightarrow> unit prog" where
  "open_w path = bind io_fault (\<lambda>_ w. (Return (), w\<lparr>files := (files w)(path \<mapsto> [])\<rparr>))"

definition execute_java_code :: "pylib \<Rightarrow> str \<Rightarrow> (str \<times> str) prog" where
  "execute_java_code L code =
     catch
       (bind (run_captured [lit ''java'', lit ''--version''] None) (\<lambda>java_check.
        if returncode java_check \<noteq> 0
        then ret ([], lit ''Error: Java is not installed or not in PATH'')
        else
          (case search_public_class L code of
             None \<Rightarrow> ret ([], lit ''Error: No public class found in Java code'')
           | Some class_name \<Rightarrow>
               bind mkdtemp (\<lambda>temp_dir.
               bind (open_w (os_path_join temp_dir (class_name @ lit ''.java''))) (\<lambda>_.
               bind (write_text (os_path_join temp_dir (class_name @ lit ''.java'')) code) (\<lambda>_.
               bind (run_captured
                       [lit ''javac'', lit ''-encoding'', lit ''UTF-8'',
                        os_path_join temp_dir (class_name @ lit ''.java'')] (Some 10))
                 (\<lambda>compile_result.
               if returncode compile_result \<noteq> 0
               then ret ([], lit ''Compilation Error: '' @ stderr compile_result)
               else
                 bind (run_captured [lit ''java'', lit ''-cp'', temp_dir, class_name] (Some 10))
                   (\<lambda>run_result.
                 bind (shutil_rmtree temp_dir) (\<lambda>_.
                 ret (stdout run_result, stderr run_result))))))))))
       execution_handlers"

text \<open>The dispatch of \<^verbatim>\<open>handle_run_code\<close> over the supported languages.\<close>

datatype language = Python | JavaScript | Java

definition execute :: "pylib \<Rightarrow> str \<Rightarrow> language \<Rightarrow> (str \<times> str) prog" where
  "execute L code lang =
     (case lang of
        Python \<Rightarrow> execute_python_code L code
      | JavaScript \<Rightarrow> execute_javascript_code L code
      | Java \<Rightarrow> execute_java_code L code)"

subsection \<open>Text functions of Python used by the analysis\<close>

text \<open>
  \<^verbatim>\<open>s.strip()\<close>, \<^verbatim>\<open>s.split(sep, maxsplit)\<close> and \<^verbatim>\<open>s.split(sep)\<close> for a
  separator of one character, and \<^verbatim>\<open>int(s)\<close>, whose \<^verbatim>\<open>ValueError\<close> is the
  result \<open>None\<close>: optional white space around an optional sign and decimal digits, where
  single underscores may stand between digits. A digit is an ASCII digit or, from code
  point 256 on, a decimal digit of the Unicode database, with its value. The white space
  that \<^verbatim>\<open>int\<close> skips is not that of \<^verbatim>\<open>strip\<close>: the separators
  \<open>0x1C\<close> to \<open>0x1F\<close> are refused. (The limit of CPython on the number of digits
  is not modelled.)
\<close>

definition strip :: "str \<Rightarrow> str" where
  "strip s = rev (dropWhile is_space (rev (dropWhile is_space s)))"

fun split_max :: "nat \<Rightarrow> nat \<Rightarrow> str \<Rightarrow> str list" where
  "split_max sep 0 s = [s]"
| "split_max sep (Suc n) s =
     (case dropWhile (\<lambda>c. c \<noteq> sep) s of
        [] \<Rightarrow> [s]
      | c # rest \<Rightarrow> takeWhile (\<lambda>c. c \<noteq> sep) s # split_max sep n rest)"

definition split_all :: "nat \<Rightarrow> str \<Rightarrow> str list" where
  "split_all sep s = split_max sep (length s) s"

definition digit_of :: "pylib \<Rightarrow> nat \<Rightarrow> nat option" where
  "digit_of L c =
     (if 48 \<le> c \<and> c \<le> 57 then Some (c - 48)
      else if c < 256 then None
      else unicode_decimal L c)"

fun digits_value :: "pylib \<Rightarrow> nat \<Rightarrow> str \<Rightarrow> nat option" where
  "digits_value L acc [] = Some acc"
| "digits_value L acc (c # cs) =
     (case digit_of L c of
        Some v \<Rightarrow> digits_value L (10 * acc + v) cs
      | None \<Rightarrow>
          if c = 95 then
            (case cs of
               [] \<Rightarrow> None
             | d # ds \<Rightarrow>
                 (case digit_of L d of
                    Some v \<Rightarrow> digits_value L (10 * acc + v) ds
                  | None \<Rightarrow> None))
          else None)"

definition unsigned_value :: "pylib \<Rightarrow> str \<Rightarrow> nat option" where
  "unsigned_value L s =
     (case s of
        [] \<Rightarrow> None
      | c # cs \<Rightarrow>
          (case digit_of L c of
             Some v \<Rightarrow> digits_value L v cs
           | None \<Rightarrow> None))"

definition is_int_space :: "nat \<Rightarrow> bool" where
  "is_int_space c = (is_space c \<and> \<not> (28 \<le> c \<and> c \<le> 31))"

definition py_int :: "pylib \<Rightarrow> str \<Rightarrow> int option" where
  "py_int L s =
     (case rev (dropWhile is_int_space (rev (dropWhile is_int_space s))) of
        [] \<Rightarrow> None
      | c # cs \<Rightarrow>
          if c = 45 then map_option (\<lambda>n. - int n) (unsigned_value L cs)
          else if c = 43 then map_option int (unsigned_value L cs)
          else map_option int (unsigned_value L (c # cs)))"

subsection \<open>Python's dynamic operations on decoded JSON\<close>

text \<open>
  The operations the analysis applies to what \<^verbatim>\<open>json.loads\<close> returned, with the
  exception Python raises when the value has the wrong type. The texts of these
  exceptions are those of CPython 3.11.
\<close>

fun type_name :: "json \<Rightarrow> str" where
  "type_name JNull = lit ''NoneType''"
| "type_name (JBool b) = lit ''bool''"
| "type_name (JInt i) = lit ''int''"
| "type_name (JFloat x) = lit ''float''"
| "type_name (JStr s) = lit ''str''"
| "type_name (JArr xs) = lit ''list''"
| "type_name (JObj kvs) = lit ''dict''"

definition quoted :: "str \<Rightarrow> str" where
  "quoted s = [39] @ s @ [39]"

text \<open>\<^verbatim>\<open>v.get(key, default)\<close>\<close>

definition py_get :: "json \<Rightarrow> str \<Rightarrow> json \<Rightarrow> exn + json" where
  "py_get v key dflt =
     (case v of
        JObj kvs \<Rightarrow> Inr (case map_of kvs key of None \<Rightarrow> dflt | Some x \<Rightarrow> x)
      | _ \<Rightarrow> Inl (AttributeError
                 (quoted (type_name v) @ lit '' object has no attribute '' @ quoted (lit ''get''))))"

text \<open>\<^verbatim>\<open>for x in v\<close>: the elements iterated over.\<close>

definition py_iter :: "json \<Rightarrow> exn + json list" where
  "py_iter v =
     (case v of
        JArr xs \<Rightarrow> Inr xs
      | JObj kvs \<Rightarrow> Inr (map (\<lambda>kv. JStr (fst kv)) kvs)
      | JStr s \<Rightarrow> Inr (map (\<lambda>c. JStr [c]) s)
      | _ \<Rightarrow> Inl (TypeError (quoted (type_name v) @ lit '' object is not iterable'')))"

fun is_substring :: "str \<Rightarrow> str \<Rightarrow> bool" where
  "is_substring p [] = (p = [])"
| "is_substring p (c # cs) = (prefix p (c # cs) \<or> is_substring p cs)"

text \<open>\<^verbatim>\<open>key in v\<close> for a text \<^verbatim>\<open>key\<close>\<close>

definition py_contains :: "json \<Rightarrow> str \<Rightarrow> exn + bool" where
  "py_contains v key =
     (case v of
        JObj kvs \<Rightarrow> Inr (map_of kvs key \<noteq> None)
      | JArr xs \<Rightarrow> Inr (JStr key \<in> set xs)
      | JStr s \<Rightarrow> Inr (is_substring key s)
      | _ \<Rightarrow> Inl (TypeError
                 (lit ''argument of type '' @ quoted (type_name v) @ lit '' is not iterable'')))"

text \<open>\<^verbatim>\<open>v[key]\<close> for a text \<^verbatim>\<open>key\<close>\<close>

definition py_getitem :: "json \<Rightarrow> str \<Rightarrow> exn + json" where
  "py_getitem v key =
     (case v of
        JObj kvs \<Rightarrow>
          (case map_of kvs key of
             None \<Rightarrow> Inl (OtherError (quoted key))
           | Some x \<Rightarrow> Inr x)
      | JArr xs \<Rightarrow> Inl (TypeError (lit ''list indices must be integers or slices, not str''))
      | JStr s \<Rightarrow> Inl (TypeError (lit ''string indices must be integers, not '' @ quoted (lit ''str'')))
      | _ \<Rightarrow> Inl (TypeError (quoted (type_name v) @ lit '' object is not subscriptable'')))"

text \<open>The truth value of \<^verbatim>\<open>v\<close> in a condition.\<close>

fun truthy :: "json \<Rightarrow> bool" where
  "truthy JNull = False"
| "truthy (JBool b) = b"
| "truthy (JInt i) = (i \<noteq> 0)"
| "truthy (JFloat x) = (x \<noteq> 0)"
| "truthy (JStr s) = (s \<noteq> [])"
| "truthy (JArr xs) = (xs \<noteq> [])"
| "truthy (JObj kvs) = (kvs \<noteq> [])"

text \<open>The value of a number; a boolean is the number 0 or 1.\<close>

fun number :: "json \<Rightarrow> real option" where
  "number (JInt i) = Some (of_int i)"
| "number (JFloat x) = Some x"
| "number (JBool b) = Some (if b then 1 else 0)"
| "number v = None"

fun is_float :: "json \<Rightarrow> bool" where
  "is_float (JFloat x) = True"
| "is_float v = False"

text \<open>
  \<^verbatim>\<open>sum(vs)\<close>, from the accumulator \<open>acc\<close> on (\<open>fl\<close>: the accumulator is a float):
  the first element that is not a number raises.
\<close>

fun py_sum_from :: "real \<Rightarrow> bool \<Rightarrow> json list \<Rightarrow> exn + (real \<times> bool)" where
  "py_sum_from acc fl [] = Inr (acc, fl)"
| "py_sum_from acc fl (v # vs) =
     (case number v of
        None \<Rightarrow> Inl (TypeError
                  (lit ''unsupported operand type(s) for +: ''
                   @ quoted (if fl then lit ''float'' else lit ''int'') @ lit '' and '' @ quoted (type_name v)))
      | Some x \<Rightarrow> py_sum_from (acc + x) (fl \<or> is_float v) vs)"

definition py_sum :: "json list \<Rightarrow> exn + (real \<times> bool)" where
  "py_sum vs = py_sum_from 0 False vs"

text \<open>
  \<^verbatim>\<open>max(vs)\<close> for a non-empty list of numbers: the first of the greatest elements.
  It is applied only after \<^verbatim>\<open>sum\<close> has accepted every element as a number.
\<close>

definition number_of :: "json \<Rightarrow> real" where
  "number_of v = (case number v of None \<Rightarrow> 0 | Some x \<Rightarrow> x)"

fun py_max_from :: "json \<Rightarrow> json list \<Rightarrow> json" where
  "py_max_from m [] = m"
| "py_max_from m (v # vs) = py_max_from (if number_of m < number_of v then v else m) vs"

subsection \<open>Lint\<close>

text \<open>
  One issue: the dictionary with the keys \<^verbatim>\<open>line\<close>, \<^verbatim>\<open>column\<close>,
  \<^verbatim>\<open>message\<close> and \<^verbatim>\<open>code\<close>.
\<close>

record lint_issue =
  issue_line :: json
  issue_column :: json
  issue_message :: json
  issue_code :: json

definition sentinel :: "str \<Rightarrow> str \<Rightarrow> lint_issue" where
  "sentinel msg c =
     \<lparr>issue_line = JInt 0, issue_column = JInt 0, issue_message = JStr msg, issue_code = JStr c\<rparr>"

text \<open>
  \<^verbatim>\<open>parse_flake8_standard_output\<close>. The loop body for one line gives the issue to
  append, if any; \<^verbatim>\<open>"".split(' ', 1)\<close> is \<^verbatim>\<open>['']\<close>, so
  \<^verbatim>\<open>message_parts\<close> is never empty.
\<close>

definition parse_flake8_line :: "pylib \<Rightarrow> str \<Rightarrow> lint_issue option" where
  "parse_flake8_line L row =
     (if strip row \<noteq> [] then
        (let parts = split_max 58 3 row in
         if length parts \<ge> 4 then
           (case py_int L (parts ! 1) of
              None \<Rightarrow> None
            | Some line_num \<Rightarrow>
                (case py_int L (parts ! 2) of
                   None \<Rightarrow> None
                 | Some col_num \<Rightarrow>
                     (let message_parts = split_max 32 1 (strip (parts ! 3))
                      in Some \<lparr>issue_line = JInt line_num, issue_column = JInt col_num,
                               issue_message =
                                 JStr (if length message_parts > 1 then message_parts ! 1
                                       else strip (parts ! 3)),
                               issue_code =
                                 JStr (if message_parts \<noteq> [] then message_parts ! 0
                                       else [])\<rparr>)))
         else None)
      else None)"

definition parse_flake8_standard_output :: "pylib \<Rightarrow> str \<Rightarrow> lint_issue list" where
  "parse_flake8_standard_output L output =
     List.map_filter (parse_flake8_line L) (split_all 10 (strip output))"

text \<open>
  The loop over the decoded JSON output,
  \<^verbatim>\<open>
  for item in flake8_data:
      issues.append({"line": item.get("line_number", 0),
                     "column": item.get("column_number", 0),
                     "message": item.get("text", ""),
                     "code": item.get("code", "")})
  \<close>
  gives the issues appended and the exception that ended the loop, if any.
\<close>

definition item_issue :: "json \<Rightarrow> exn + lint_issue" where
  "item_issue item =
     (case py_get item (lit ''line_number'') (JInt 0) of
        Inl e \<Rightarrow> Inl e
      | Inr l \<Rightarrow>
          (case py_get item (lit ''column_number'') (JInt 0) of
             Inl e \<Rightarrow> Inl e
           | Inr c \<Rightarrow>
               (case py_get item (lit ''text'') (JStr []) of
                  Inl e \<Rightarrow> Inl e
                | Inr t \<Rightarrow>
                    (case py_get item (lit ''code'') (JStr []) of
                       Inl e \<Rightarrow> Inl e
                     | Inr k \<Rightarrow>
                         Inr \<lparr>issue_line = l, issue_column = c,
                              issue_message = t, issue_code = k\<rparr>))))"

fun collect_items :: "json list \<Rightarrow> lint_issue list \<times> exn option" where
  "collect_items [] = ([], None)"
| "collect_items (item # items) =
     (case item_issue item of
        Inl e \<Rightarrow> ([], Some e)
      | Inr i \<Rightarrow> (case collect_items items of (is, r) \<Rightarrow> (i # is, r)))"

text \<open>
  The three handlers of \<^verbatim>\<open>run_flake8_analysis\<close>, each appending one sentinel issue.
\<close>

definition flake8_sentinel :: "exn \<Rightarrow> lint_issue" where
  "flake8_sentinel e =
     (case e of
        TimeoutExpired m \<Rightarrow> sentinel (lit ''Flake8 analysis timed out'') (lit ''TIMEOUT'')
      | FileNotFoundError m \<Rightarrow>
          sentinel (lit ''Flake8 not installed. Install with: pip install flake8'') (lit ''MISSING'')
      | _ \<Rightarrow> sentinel (lit ''Flake8 analysis failed: '' @ str_exn e) (lit ''ERROR''))"

definition raise :: "exn \<Rightarrow> 'a prog" where
  "raise e = (\<lambda>w. (Raise e, w))"

text \<open>
  The issues after the block \<^verbatim>\<open>if result.stdout: ...\<close>. When the loop over the items
  ends by an exception, the issues appended so far stay in \<^verbatim>\<open>issues\<close> and the handler
  \<^verbatim>\<open>except Exception\<close> appends its sentinel (the exception is an
  \<^verbatim>\<open>AttributeError\<close> or a \<^verbatim>\<open>TypeError\<close>); this list is not empty, as on the
  path through the handler no second launch follows. Everywhere else an exception finds
  \<^verbatim>\<open>issues\<close> empty.
\<close>

definition flake8_json_issues :: "pylib \<Rightarrow> str \<Rightarrow> lint_issue list prog" where
  "flake8_json_issues L out =
     (if out \<noteq> [] then
        (case json_loads L out of
           Inl e \<Rightarrow>
             (case e of
                JSONDecodeError m \<Rightarrow> ret (parse_flake8_standard_output L out)
              | _ \<Rightarrow> raise e)
         | Inr flake8_data \<Rightarrow>
             (case py_iter flake8_data of
                Inl e \<Rightarrow> raise e
              | Inr items \<Rightarrow>
                  (case collect_items items of
                     (issues, None) \<Rightarrow> ret issues
                   | (issues, Some e) \<Rightarrow> ret (issues @ [flake8_sentinel e]))))
      else ret [])"

definition run_flake8_analysis :: "pylib \<Rightarrow> str \<Rightarrow> lint_issue list prog" where
  "run_flake8_analysis L file_path =
     catch
       (bind (run_captured [lit ''flake8'', lit ''--format=json'', file_path] (Some 30)) (\<lambda>result.
        bind (flake8_json_issues L (stdout result)) (\<lambda>issues.
        if issues = [] \<and> returncode result \<noteq> 0
        then bind (run_captured [lit ''flake8'', file_path] (Some 30)) (\<lambda>result2.
               ret (parse_flake8_standard_output L (stdout result2)))
        else ret issues)))
       (\<lambda>e. ret [flake8_sentinel e])"

subsection \<open>Format check\<close>

definition run_black_analysis :: "pylib \<Rightarrow> str \<Rightarrow> (str \<times> bool) prog" where
  "run_black_analysis L code =
     catch
       (bind (run_captured [lit ''black'', lit ''--diff'', lit ''-''] (Some 30)) (\<lambda>result.
        if strip (stdout result) \<noteq> []
        then bind (run_captured [lit ''black'', lit ''-''] (Some 30)) (\<lambda>format_result.
               ret (if returncode format_result = 0 then stdout format_result else code, True))
        else ret (code, False)))
       (\<lambda>e. ret (code, False))"

subsection \<open>Complexity\<close>

text \<open>
  The dictionary \<^verbatim>\<open>complexity_data\<close> is the list of its items in insertion order;
  \<^verbatim>\<open>d[k] = v\<close> is \<^const>\<open>AList.update\<close> and \<^verbatim>\<open>d.update(e)\<close> stores the
  items of \<^verbatim>\<open>e\<close> one after the other.
\<close>

type_synonym dict = "(str \<times> json) list"

definition has_key :: "dict \<Rightarrow> str \<Rightarrow> bool" where
  "has_key d k = (map_of d k \<noteq> None)"

definition dict_update :: "dict \<Rightarrow> dict \<Rightarrow> dict" where
  "dict_update d e = fold (\<lambda>kv. AList.update (fst kv) (snd kv)) e d"

text \<open>\<^verbatim>\<open>[func.get('complexity', 0) for func in functions]\<close>\<close>

fun get_complexities :: "json list \<Rightarrow> exn + json list" where
  "get_complexities [] = Inr []"
| "get_complexities (func # funcs) =
     (case py_get func (lit ''complexity'') (JInt 0) of
        Inl e \<Rightarrow> Inl e
      | Inr c \<Rightarrow> (case get_complexities funcs of Inl e \<Rightarrow> Inl e | Inr cs \<Rightarrow> Inr (c # cs)))"

text \<open>\<^verbatim>\<open>len(functions)\<close> for a value that has been iterated over.\<close>

definition py_len :: "json \<Rightarrow> int" where
  "py_len v =
     (case v of
        JArr xs \<Rightarrow> int (length xs)
      | JObj kvs \<Rightarrow> int (length kvs)
      | JStr s \<Rightarrow> int (length s)
      | _ \<Rightarrow> 0)"

text \<open>
  The three assignments under \<^verbatim>\<open>if functions:\<close>,
  \<^verbatim>\<open>
  complexities = [func.get('complexity', 0) for func in functions]
  complexity_data['complexity'] = sum(complexities) / len(complexities) if complexities else 0
  complexity_data['max_complexity'] = max(complexities) if complexities else 0
  complexity_data['function_count'] = len(functions)
  \<close>
  An exception can only come from the first two lines, before anything is stored.
\<close>

definition cc_assignments :: "json \<Rightarrow> dict \<Rightarrow> exn + dict" where
  "cc_assignments functions complexity_data =
     (case py_iter functions of
        Inl e \<Rightarrow> Inl e
      | Inr funcs \<Rightarrow>
          (case get_complexities funcs of
             Inl e \<Rightarrow> Inl e
           | Inr complexities \<Rightarrow>
               (case (if complexities \<noteq> []
                      then map_sum id (\<lambda>s. JFloat (fst s / real (length complexities)))
                             (py_sum complexities)
                      else Inr (JInt 0)) of
                  Inl e \<Rightarrow> Inl e
                | Inr average \<Rightarrow>
                    Inr (AList.update (lit ''function_count'') (JInt (py_len functions))
                          (AList.update (lit ''max_complexity'')
                             (if complexities \<noteq> []
                              then py_max_from (hd complexities) (tl complexities)
                              else JInt 0)
                          (AList.update (lit ''complexity'') average complexity_data))))))"

text \<open>
  The block after the launch of \<^verbatim>\<open>radon cc -j\<close>:
  \<^verbatim>\<open>
  if cc_result.returncode == 0 and cc_result.stdout:
      try:
          cc_data = json.loads(cc_result.stdout)
          if file_path in cc_data:
              functions = cc_data[file_path]
              if functions:
                  ...
      except json.JSONDecodeError:
          pass
  \<close>
\<close>

definition cc_block :: "pylib \<Rightarrow> str \<Rightarrow> completed \<Rightarrow> dict \<Rightarrow> exn + dict" where
  "cc_block L file_path cc_result complexity_data =
     (if returncode cc_result = 0 \<and> stdout cc_result \<noteq> [] then
        (case json_loads L (stdout cc_result) of
           Inl e \<Rightarrow> (case e of JSONDecodeError m \<Rightarrow> Inr complexity_data | _ \<Rightarrow> Inl e)
         | Inr cc_data \<Rightarrow>
             (case py_contains cc_data file_path of
                Inl e \<Rightarrow> Inl e
              | Inr present \<Rightarrow>
                  if present then
                    (case py_getitem cc_data file_path of
                       Inl e \<Rightarrow> Inl e
                     | Inr functions \<Rightarrow>
                         if truthy functions then cc_assignments functions complexity_data
                         else Inr complexity_data)
                  else Inr complexity_data))
      else Inr complexity_data)"

text \<open>
  The block after the launch of \<^verbatim>\<open>radon mi -j\<close>:
  \<^verbatim>\<open>
  if mi_result.returncode == 0 and mi_result.stdout:
      try:
          mi_data = json.loads(mi_result.stdout)
          if file_path in mi_data:
              complexity_data['maintainability'] = mi_data[file_path].get('mi', 0)
      except json.JSONDecodeError:
          pass
  \<close>
\<close>

definition mi_block :: "pylib \<Rightarrow> str \<Rightarrow> completed \<Rightarrow> dict \<Rightarrow> exn + dict" where
  "mi_block L file_path mi_result complexity_data =
     (if returncode mi_result = 0 \<and> stdout mi_result \<noteq> [] then
        (case json_loads L (stdout mi_result) of
           Inl e \<Rightarrow> (case e of JSONDecodeError m \<Rightarrow> Inr complexity_data | _ \<Rightarrow> Inl e)
         | Inr mi_data \<Rightarrow>
             (case py_contains mi_data file_path of
                Inl e \<Rightarrow> Inl e
              | Inr present \<Rightarrow>
                  if present then
                    (case py_getitem mi_data file_path of
                       Inl e \<Rightarrow> Inl e
                     | Inr entry \<Rightarrow>
                         (case py_get entry (lit ''mi'') (JInt 0) of
                            Inl e \<Rightarrow> Inl e
                          | Inr mi \<Rightarrow> Inr (AList.update (lit ''maintainability'') mi complexity_data)))
                  else Inr complexity_data))
      else Inr complexity_data)"

definition lift :: "exn + 'a \<Rightarrow> 'a prog" where
  "lift r = (case r of Inl e \<Rightarrow> raise e | Inr x \<Rightarrow> ret x)"

text \<open>The three handlers of \<^verbatim>\<open>run_radon_analysis\<close>, each storing an error text.\<close>

definition radon_error :: "exn \<Rightarrow> dict \<Rightarrow> dict" where
  "radon_error e complexity_data =
     AList.update (lit ''error'')
       (JStr (case e of
                TimeoutExpired m \<Rightarrow> lit ''Radon analysis timed out''
              | FileNotFoundError m \<Rightarrow> lit ''Radon not installed. Install with: pip install radon''
              | _ \<Rightarrow> lit ''Radon analysis failed: '' @ str_exn e))
       complexity_data"

text \<open>
  \<^verbatim>\<open>ast.walk(tree)\<close>: the nodes of the tree, breadth first, from a queue of nodes
  still to visit.
\<close>

function walk_queue :: "node list \<Rightarrow> node list" where
  "walk_queue [] = []"
| "walk_queue (Node c subnodes # todo) = Node c subnodes # walk_queue (todo @ subnodes)"
  by pat_completeness auto
termination
  by (relation "measure (\<lambda>q. size_list size q)") simp_all

definition ast_walk :: "node \<Rightarrow> node list" where
  "ast_walk tree = walk_queue [tree]"

fun class_of :: "node \<Rightarrow> ast_class" where
  "class_of (Node c subnodes) = c"

definition basic_ast_analysis :: "pylib \<Rightarrow> str \<Rightarrow> dict prog" where
  "basic_ast_analysis L file_path =
     catch
       (bind (read_text file_path) (\<lambda>code.
        bind (lift (ast_parse L code)) (\<lambda>tree.
        let functions = filter (\<lambda>n. class_of n = FunctionDef) (ast_walk tree);
            classes = filter (\<lambda>n. class_of n = ClassDef) (ast_walk tree);
            control_flow = filter (\<lambda>n. class_of n \<in> {If_stmt, For, While, Try}) (ast_walk tree)
        in ret [(lit ''function_count'', JInt (int (length functions))),
                (lit ''class_count'', JInt (int (length classes))),
                (lit ''control_flow_count'', JInt (int (length control_flow))),
                (lit ''estimated_complexity'',
                   JInt (int (length control_flow) + int (length functions))),
                (lit ''analysis_type'', JStr (lit ''basic_ast''))])))
       (\<lambda>e. ret [(lit ''error'', JStr (lit ''Basic AST analysis failed: '' @ str_exn e))])"

text \<open>
  \<^verbatim>\<open>run_radon_analysis\<close>. The source has one \<^verbatim>\<open>try\<close> around both launches, whose
  handlers store the error text into \<^verbatim>\<open>complexity_data\<close> as it is when the exception
  arrives: empty up to the end of the first block, and what the first block made of it
  from then on. The model has one \<open>catch\<close> for each of the two stretches.
\<close>

definition run_radon_analysis :: "pylib \<Rightarrow> str \<Rightarrow> dict prog" where
  "run_radon_analysis L file_path =
     bind
       (catch
          (bind (run_captured [lit ''radon'', lit ''cc'', lit ''-j'', file_path] (Some 30)) (\<lambda>cc_result.
           bind (lift (cc_block L file_path cc_result [])) (\<lambda>complexity_data.
           catch
             (bind (run_captured [lit ''radon'', lit ''mi'', lit ''-j'', file_path] (Some 30))
                (\<lambda>mi_result. lift (mi_block L file_path mi_result complexity_data)))
             (\<lambda>e. ret (radon_error e complexity_data)))))
          (\<lambda>e. ret (radon_error e [])))
       (\<lambda>complexity_data.
          if complexity_data = [] \<or> has_key complexity_data (lit ''error'')
          then catch
                 (bind (basic_ast_analysis L file_path) (\<lambda>basic.
                  ret (dict_update complexity_data basic)))
                 (\<lambda>e. ret complexity_data)
          else ret complexity_data)"

subsection \<open>The analysis pipeline\<close>

record analysis =
  lint_issues :: "lint_issue list"
  formatting_needed :: bool
  formatted_code :: str
  complexity :: dict

definition analyze_python_code :: "pylib \<Rightarrow> str \<Rightarrow> analysis prog" where
  "analyze_python_code L code =
     bind (named_temporary_file (lit ''.py'')) (\<lambda>temp_file_path.
     bind (write_text temp_file_path code) (\<lambda>_.
     try_finally
       (bind (run_flake8_analysis L temp_file_path) (\<lambda>issues.
        bind (run_black_analysis L code) (\<lambda>formatted.
        bind (run_radon_analysis L temp_file_path) (\<lambda>complexity_data.
        ret \<lparr>lint_issues = issues, formatting_needed = snd formatted,
             formatted_code = fst formatted, complexity = complexity_data\<rparr>))))
       (bind (os_path_exists temp_file_path) (\<lambda>present.
        if present then os_unlink temp_file_path else ret ()))))"

subsection \<open>Predicates on programs\<close>

text \<open>
  A program keeps track of its launches when it only appends to the record of launches
  and, whenever one of the launches it appended ended by its time limit, it ends by
  raising \<^verbatim>\<open>TimeoutExpired\<close>.
\<close>

definition tracks :: "'a prog \<Rightarrow> bool" where
  "tracks m = (\<forall>w r w'. m w = (r, w') \<longrightarrow>
     (\<exists>new. launched w' = launched w @ new \<and>
        ((\<exists>l \<in> set new. expired l) \<longrightarrow> (\<exists>msg. r = Raise (TimeoutExpired msg)))))"

subsection \<open>Worlds and libraries for the examples\<close>

text \<open>
  A library whose JSON parser accepts nothing, whose Python parser gives an empty module,
  and whose Unicode database knows no letter, number or digit from code point 256 on.
\<close>

definition plain_lib :: pylib where
  "plain_lib =
     \<lparr>json_loads = (\<lambda>s. Inl (JSONDecodeError (lit ''Expecting value: line 1 column 1 (char 0)''))),
      ast_parse = (\<lambda>s. Inr (Node (OtherNode (lit ''Module'')) [])),
      unicode_isalnum = (\<lambda>c. False),
      unicode_decimal = (\<lambda>c. None)\<rparr>"

text \<open>
  A world with an empty file system in which no file-system operation fails, the allocator
  hands out \<^verbatim>\<open>/tmp/tmp0\<close>, and the \<open>n\<close>-th child launched behaves as \<open>cs n\<close>;
  in \<open>calm_world c\<close> every child behaves as \<open>c\<close>.
\<close>

definition scripted_world :: "(nat \<Rightarrow> child) \<Rightarrow> world" where
  "scripted_world cs =
     \<lparr>files = Map.empty, dirs = {}, tmp_names = (\<lambda>n. lit ''/tmp/tmp0''),
      io_faults = (\<lambda>n. None), children = cs, launched = []\<rparr>"

definition calm_world :: "child \<Rightarrow> world" where
  "calm_world c = scripted_world (\<lambda>n. c)"

subsection \<open>Counting the nodes of a syntax tree\<close>

text \<open>
  The number of nodes of a tree, at any depth, whose class satisfies \<open>P\<close>: what
  ``the number of function definitions of the source'' means, by recursion over the tree
  and without the queue of \<^verbatim>\<open>ast.walk\<close>.
\<close>

fun count_nodes :: "(ast_class \<Rightarrow> bool) \<Rightarrow> node \<Rightarrow> nat" where
  "count_nodes P (Node c subnodes) =
     (if P c then 1 else 0) + sum_list (map (count_nodes P) subnodes)"

subsection \<open>More libraries for the examples\<close>


text \<open>A library whose Python parser rejects every source with a syntax error.\<close>

definition unparsable_lib :: pylib where
  "unparsable_lib =
     plain_lib\<lparr>ast_parse := (\<lambda>s. Inl (OtherError (lit ''invalid syntax (<unknown>, line 1)'')))\<rparr>"

text \<open>
  The tree of
  \<^verbatim>\<open>
  def f(xs):
      if xs:
          for x in xs: pass
      while False: pass
  class C:
      def g(self):
          try: pass
          except Exception: pass
  \<close>
  with the nodes that are no statements left out, and a library whose Python parser gives
  this tree.
\<close>

definition fixture_tree :: node where
  "fixture_tree =
     Node (OtherNode (lit ''Module''))
       [Node FunctionDef [Node If_stmt [Node For []], Node While []],
        Node ClassDef [Node FunctionDef [Node Try []]]]"

definition fixture_lib :: pylib where
  "fixture_lib = plain_lib\<lparr>ast_parse := (\<lambda>s. Inr fixture_tree)\<rparr>"

subsection \<open>Programs that end and programs that keep the files\<close>



subsection \<open>Output of the complexity tool for the examples\<close>







subsection \<open>Programs that return\<close>


subsection \<open>Children still running at a time limit\<close>

text \<open>\<open>outlives t c\<close>: the child \<open>c\<close> has not exited \<open>t\<close> seconds after its launch.\<close>

fun outlives :: "real \<Rightarrow> child \<Rightarrow> bool" where
  "outlives t Forever = True"
| "outlives t (Exits d rc out err) = (t < d)"
| "outlives t (Raises e) = False"

section \<open>Properties\<close>

subsection \<open>Texts of literals\<close>

lemma lit_inj [simp]: "lit a = lit b \<longleftrightarrow> a = b"
  by (simp add: lit_def inj_map_eq_map inj_on_def)

lemma lit_Nil [simp]: "lit [] = []"
  by (simp add: lit_def)

lemma lit_eq_Nil [simp]: "lit a = [] \<longleftrightarrow> a = []"
  by (simp add: lit_def)

lemma lit_append [simp]: "lit a @ lit b = lit (a @ b)"
  by (simp add: lit_def)

lemma lit_append_more [simp]: "lit a @ lit b @ x = lit (a @ b) @ x"
  by (simp add: lit_def)

subsection \<open>Running programs step by step\<close>

lemma ret_apply: "ret x w = (Return x, w)"
  by (simp add: ret_def)

lemma raise_apply: "raise e w = (Raise e, w)"
  by (simp add: raise_def)

lemma bind_Return: "m w = (Return x, w') \<Longrightarrow> bind m f w = f x w'"
  by (simp add: bind_def)

lemma bind_Raise: "m w = (Raise e, w') \<Longrightarrow> bind m f w = (Raise e, w')"
  by (simp add: bind_def)

lemma bind_Hang: "m w = (Hang, w') \<Longrightarrow> bind m f w = (Hang, w')"
  by (simp add: bind_def)

lemma bind_eq_Return:
  "bind m f w = (Return y, w') \<Longrightarrow> \<exists>x w1. m w = (Return x, w1) \<and> f x w1 = (Return y, w')"
  by (auto simp: bind_def split: prod.splits outcome.splits)

lemma catch_Return: "m w = (Return x, w') \<Longrightarrow> catch m h w = (Return x, w')"
  by (simp add: catch_def)

lemma catch_Raise: "m w = (Raise e, w') \<Longrightarrow> catch m h w = h e w'"
  by (simp add: catch_def)

lemma catch_Hang: "m w = (Hang, w') \<Longrightarrow> catch m h w = (Hang, w')"
  by (simp add: catch_def)

lemma try_finally_eq_Return:
  "try_finally m c w = (Return y, w') \<Longrightarrow> \<exists>w1. m w = (Return y, w1)"
  by (auto simp: try_finally_def split: prod.splits outcome.splits)

lemma except_unicode_Return:
  "m w = (Return x, w') \<Longrightarrow> except_unicode m h w = (Return x, w')"
  by (simp add: except_unicode_def)

lemma except_unicode_Unicode:
  "m w = (Raise (UnicodeDecodeError msg), w') \<Longrightarrow> except_unicode m h w = h w'"
  by (simp add: except_unicode_def)

subsection \<open>Launches and time limits\<close>

lemma tracksD:
  "tracks m \<Longrightarrow> m w = (r, w') \<Longrightarrow>
     \<exists>new. launched w' = launched w @ new \<and>
        ((\<exists>l \<in> set new. expired l) \<longrightarrow> (\<exists>msg. r = Raise (TimeoutExpired msg)))"
  unfolding tracks_def by blast

lemma tracks_silent:
  assumes "\<And>w r w'. m w = (r, w') \<Longrightarrow> launched w' = launched w"
  shows "tracks m"
  unfolding tracks_def using assms by fastforce

lemma tracks_ret: "tracks (ret x)"
  by (rule tracks_silent) (simp add: ret_def)

lemma tracks_raise: "tracks (raise e)"
  by (rule tracks_silent) (simp add: raise_def)

lemma tracks_lift: "tracks (lift r)"
  by (cases r) (simp_all add: lift_def tracks_ret tracks_raise)

lemma tracks_bind:
  assumes "tracks m" and "\<And>x. tracks (f x)"
  shows "tracks (bind m f)"
  unfolding tracks_def
proof (intro allI impI)
  fix w r' w'
  assume bw: "bind m f w = (r', w')"
  obtain r w1 where m: "m w = (r, w1)" by (cases "m w")
  from tracksD[OF assms(1) m] obtain new1 where
    n1: "launched w1 = launched w @ new1"
    and e1: "(\<exists>l \<in> set new1. expired l) \<longrightarrow> (\<exists>msg. r = Raise (TimeoutExpired msg))" by blast
  show "\<exists>new. launched w' = launched w @ new \<and>
        ((\<exists>l \<in> set new. expired l) \<longrightarrow> (\<exists>msg. r' = Raise (TimeoutExpired msg)))"
  proof (cases r)
    case (Return x)
    obtain r2 w2 where f: "f x w1 = (r2, w2)" by (cases "f x w1")
    from tracksD[OF assms(2) f] obtain new2 where
      n2: "launched w2 = launched w1 @ new2"
      and e2: "(\<exists>l \<in> set new2. expired l) \<longrightarrow> (\<exists>msg. r2 = Raise (TimeoutExpired msg))" by blast
    have b: "bind m f w = (r2, w2)" using m Return f by (simp add: bind_def)
    have "launched w2 = launched w @ (new1 @ new2)" using n1 n2 by simp
    moreover have "(\<exists>l \<in> set (new1 @ new2). expired l) \<longrightarrow> (\<exists>msg. r2 = Raise (TimeoutExpired msg))"
      using e1 e2 Return by auto
    ultimately show ?thesis using b bw by (metis prod.inject)
  next
    case (Raise e)
    then have "bind m f w = (Raise e, w1)" using m by (simp add: bind_def)
    then show ?thesis using n1 e1 Raise bw by auto
  next
    case Hang
    then have "bind m f w = (Hang, w1)" using m by (simp add: bind_def)
    then show ?thesis using n1 e1 Hang bw by auto
  qed
qed

lemma tracks_except_unicode:
  assumes "tracks m" and "tracks h"
  shows "tracks (except_unicode m h)"
  unfolding tracks_def
proof (intro allI impI)
  fix w r' w'
  assume ew: "except_unicode m h w = (r', w')"
  obtain r w1 where m: "m w = (r, w1)" by (cases "m w")
  from tracksD[OF assms(1) m] obtain new1 where
    n1: "launched w1 = launched w @ new1"
    and e1: "(\<exists>l \<in> set new1. expired l) \<longrightarrow> (\<exists>msg. r = Raise (TimeoutExpired msg))" by blast
  show "\<exists>new. launched w' = launched w @ new \<and>
        ((\<exists>l \<in> set new. expired l) \<longrightarrow> (\<exists>msg. r' = Raise (TimeoutExpired msg)))"
  proof (cases "\<exists>msg. r = Raise (UnicodeDecodeError msg)")
    case True
    then obtain msg where r: "r = Raise (UnicodeDecodeError msg)" by blast
    with ew m have h: "h w1 = (r', w')" by (simp add: except_unicode_def)
    from tracksD[OF assms(2) h] obtain new2 where
      n2: "launched w' = launched w1 @ new2"
      and e2: "(\<exists>l \<in> set new2. expired l) \<longrightarrow> (\<exists>msg. r' = Raise (TimeoutExpired msg))" by blast
    have "launched w' = launched w @ (new1 @ new2)" using n1 n2 by simp
    moreover have "(\<exists>l \<in> set (new1 @ new2). expired l) \<longrightarrow> (\<exists>msg. r' = Raise (TimeoutExpired msg))"
      using e1 e2 r by auto
    ultimately show ?thesis by blast
  next
    case False
    with ew m have "r' = r" "w' = w1"
      by (auto simp: except_unicode_def split: outcome.splits exn.splits)
    then show ?thesis using n1 e1 by blast
  qed
qed

lemma tracks_io_fault: "tracks io_fault"
  by (rule tracks_silent) (auto simp: io_fault_def Let_def split: option.splits)

lemma io_fault_launched: "io_fault w = (r, w') \<Longrightarrow> launched w' = launched w"
  by (auto simp: io_fault_def Let_def split: option.splits)

lemma tracks_named_temporary_file: "tracks (named_temporary_file sfx)"
  unfolding named_temporary_file_def
  by (intro tracks_bind tracks_io_fault tracks_silent) (auto simp: Let_def)

lemma tracks_write_text: "tracks (write_text path text)"
  unfolding write_text_def
  by (intro tracks_bind tracks_io_fault tracks_silent) auto

lemma tracks_open_w: "tracks (open_w path)"
  unfolding open_w_def
  by (intro tracks_bind tracks_io_fault tracks_silent) auto

lemma tracks_os_unlink: "tracks (os_unlink path)"
  unfolding os_unlink_def
  by (intro tracks_bind tracks_io_fault tracks_silent) (auto split: option.splits)

lemma tracks_mkdtemp: "tracks mkdtemp"
  unfolding mkdtemp_def
  by (intro tracks_bind tracks_io_fault tracks_silent) (auto simp: Let_def)

lemma tracks_shutil_rmtree: "tracks (shutil_rmtree d)"
  unfolding shutil_rmtree_def
  by (intro tracks_bind tracks_io_fault tracks_silent) (auto split: if_splits)

lemma tracks_subprocess_run: "tracks (subprocess_run args timeout)"
  unfolding tracks_def
  by (auto simp: subprocess_run_def log_launch_def timed_out_def
           split: child.splits option.splits if_splits)

lemma tracks_run_captured: "tracks (run_captured args timeout)"
  unfolding run_captured_def run_text_def run_bytes_def
  by (intro tracks_except_unicode tracks_bind tracks_subprocess_run)
     (simp_all add: tracks_ret split: prod.splits)

lemma tracks_python_body:
  "tracks (bind (named_temporary_file (lit ''.py'')) (\<lambda>temp_file.
        bind (write_text temp_file src) (\<lambda>_.
        bind (run_captured [sys_executable, temp_file] (Some 10)) (\<lambda>result.
        bind (os_unlink temp_file) (\<lambda>_.
        ret (stdout result, stderr result))))))"
  by (intro tracks_bind tracks_named_temporary_file tracks_write_text tracks_run_captured
        tracks_os_unlink tracks_ret)

lemma tracks_javascript_body:
  "tracks (bind (run_captured [lit ''node'', lit ''--version''] None) (\<lambda>node_check.
        if returncode node_check \<noteq> 0
        then ret ([], lit ''Error: Node.js is not installed or not in PATH'')
        else
          bind (named_temporary_file (lit ''.js'')) (\<lambda>temp_file.
          bind (write_text temp_file src) (\<lambda>_.
          bind (run_captured [lit ''node'', temp_file] (Some 10)) (\<lambda>result.
          bind (os_unlink temp_file) (\<lambda>_.
          ret (stdout result, stderr result)))))))"
  by (intro tracks_bind tracks_run_captured)
     (auto intro!: tracks_bind tracks_named_temporary_file tracks_write_text
        tracks_run_captured tracks_os_unlink tracks_ret)

lemma tracks_java_tail:
  "tracks (bind mkdtemp (\<lambda>temp_dir.
               bind (open_w (os_path_join temp_dir (class_name @ lit ''.java''))) (\<lambda>_.
               bind (write_text (os_path_join temp_dir (class_name @ lit ''.java'')) src) (\<lambda>_.
               bind (run_captured
                       [lit ''javac'', lit ''-encoding'', lit ''UTF-8'',
                        os_path_join temp_dir (class_name @ lit ''.java'')] (Some 10))
                 (\<lambda>compile_result.
               if returncode compile_result \<noteq> 0
               then ret ([], lit ''Compilation Error: '' @ stderr compile_result)
               else
                 bind (run_captured [lit ''java'', lit ''-cp'', temp_dir, class_name] (Some 10))
                   (\<lambda>run_result.
                 bind (shutil_rmtree temp_dir) (\<lambda>_.
                 ret (stdout run_result, stderr run_result))))))))"
  by (intro tracks_bind tracks_mkdtemp tracks_open_w tracks_write_text tracks_run_captured)
     (auto intro!: tracks_bind tracks_run_captured tracks_shutil_rmtree tracks_ret)

lemma tracks_java_body:
  "tracks (bind (run_captured [lit ''java'', lit ''--version''] None) (\<lambda>java_check.
        if returncode java_check \<noteq> 0
        then ret ([], lit ''Error: Java is not installed or not in PATH'')
        else
          (case search_public_class L src of
             None \<Rightarrow> ret ([], lit ''Error: No public class found in Java code'')
           | Some class_name \<Rightarrow>
               bind mkdtemp (\<lambda>temp_dir.
               bind (open_w (os_path_join temp_dir (class_name @ lit ''.java''))) (\<lambda>_.
               bind (write_text (os_path_join temp_dir (class_name @ lit ''.java'')) src) (\<lambda>_.
               bind (run_captured
                       [lit ''javac'', lit ''-encoding'', lit ''UTF-8'',
                        os_path_join temp_dir (class_name @ lit ''.java'')] (Some 10))
                 (\<lambda>compile_result.
               if returncode compile_result \<noteq> 0
               then ret ([], lit ''Compilation Error: '' @ stderr compile_result)
               else
                 bind (run_captured [lit ''java'', lit ''-cp'', temp_dir, class_name] (Some 10))
                   (\<lambda>run_result.
                 bind (shutil_rmtree temp_dir) (\<lambda>_.
                 ret (stdout run_result, stderr run_result))))))))))"
  by (intro tracks_bind tracks_run_captured)
     (auto simp: tracks_ret tracks_java_tail split: option.splits)

lemma handlers_after_tracked:
  assumes "tracks m"
    and "catch m execution_handlers w = (r, w')"
    and "\<exists>l \<in> set (drop (length (launched w)) (launched w')). expired l"
  shows "r = Return ([], lit ''Error: Code execution timed out (10 seconds limit)'')"
proof -
  obtain r0 w0 where m: "m w = (r0, w0)" by (cases "m w")
  from tracksD[OF assms(1) m] obtain new where
    n: "launched w0 = launched w @ new"
    and e: "(\<exists>l \<in> set new. expired l) \<longrightarrow> (\<exists>msg. r0 = Raise (TimeoutExpired msg))" by blast
  have "w' = w0"
    using assms(2) m
    by (auto simp: catch_def execution_handlers_def ret_def split: outcome.splits exn.splits)
  with n assms(3) e obtain msg where "r0 = Raise (TimeoutExpired msg)" by auto
  with assms(2) m show ?thesis
    by (simp add: catch_def execution_handlers_def ret_def)
qed

lemmas run_defs =
  ret_def raise_def bind_def catch_def try_finally_def except_unicode_def lift_def
  io_fault_def named_temporary_file_def write_text_def read_text_def os_unlink_def
  os_path_exists_def mkdtemp_def open_w_def shutil_rmtree_def os_path_join_def
  subprocess_run_def log_launch_def timed_out_def run_text_def run_bytes_def
  run_captured_def decode_replace_def execution_handlers_def no_such_file_def Let_def
  lit_def io_decode_def bytes_decode_def is_continuation_def

subsection \<open>Time limit\<close>

text \<open>
  The record of launches: a launch is recorded as expired exactly when it has a time limit
  and its child is still running at that limit.
\<close>

lemma subprocess_run_expired:
  assumes "subprocess_run args timeout w = (r, w')"
  shows "launched w' = launched w
           @ [\<lparr>argv = args,
                expired = (case timeout of None \<Rightarrow> False
                           | Some t \<Rightarrow> outlives t (children w 0))\<rparr>]"
  using assms
  by (auto simp: subprocess_run_def log_launch_def split: child.splits option.splits if_splits)

text \<open>
  Whenever a launch of \<open>execute\<close> is recorded as expired, \<open>execute\<close> returns the empty
  standard output together with the fixed text: this holds for the three languages, for
  the compile step and the run step of Java, and for the second launch after a
  \<^verbatim>\<open>UnicodeDecodeError\<close>.
\<close>

lemma expired_launch_gives_fixed_message:
  assumes "execute L src lang w = (r, w')"
    and "\<exists>l \<in> set (drop (length (launched w)) (launched w')). expired l"
  shows "r = Return ([], lit ''Error: Code execution timed out (10 seconds limit)'')"
proof (cases lang)
  case Python
  with assms(1) have "execute_python_code L src w = (r, w')" by (simp add: execute_def)
  then show ?thesis
    unfolding execute_python_code_def
    using handlers_after_tracked[OF tracks_python_body _ assms(2)] by blast
next
  case JavaScript
  with assms(1) have "execute_javascript_code L src w = (r, w')" by (simp add: execute_def)
  then show ?thesis
    unfolding execute_javascript_code_def
    using handlers_after_tracked[OF tracks_javascript_body _ assms(2)] by blast
next
  case Java
  with assms(1) have "execute_java_code L src w = (r, w')" by (simp add: execute_def)
  then show ?thesis
    unfolding execute_java_code_def
    using handlers_after_tracked[OF tracks_java_body _ assms(2)] by blast
qed

subsection \<open>Format check\<close>

lemma run_black_unchanged:
  "run_black_analysis L src w = (Return p, w') \<Longrightarrow> \<not> snd p \<Longrightarrow> fst p = src"
  by (auto simp: run_black_analysis_def catch_def bind_def ret_def
           split: prod.splits outcome.splits if_splits)

lemma analyze_formatted_from_black:
  assumes "analyze_python_code L src w = (Return a, w')"
  shows "\<exists>p v v'. run_black_analysis L src v = (Return p, v')
           \<and> formatting_needed a = snd p \<and> formatted_code a = fst p"
proof -
  from assms obtain tf w3 where
    tf: "try_finally
       (bind (run_flake8_analysis L tf) (\<lambda>issues.
        bind (run_black_analysis L src) (\<lambda>formatted.
        bind (run_radon_analysis L tf) (\<lambda>complexity_data.
        ret \<lparr>lint_issues = issues, formatting_needed = snd formatted,
             formatted_code = fst formatted, complexity = complexity_data\<rparr>))))
       (bind (os_path_exists tf) (\<lambda>present.
        if present then os_unlink tf else ret ())) w3 = (Return a, w')"
    unfolding analyze_python_code_def
    by (blast dest: bind_eq_Return)
  from try_finally_eq_Return[OF tf] obtain w4 where
    body: "bind (run_flake8_analysis L tf) (\<lambda>issues.
        bind (run_black_analysis L src) (\<lambda>formatted.
        bind (run_radon_analysis L tf) (\<lambda>complexity_data.
        ret \<lparr>lint_issues = issues, formatting_needed = snd formatted,
             formatted_code = fst formatted, complexity = complexity_data\<rparr>))) w3 = (Return a, w4)"
    by blast
  from bind_eq_Return[OF body] obtain issues w5 where
    b2: "bind (run_black_analysis L src) (\<lambda>formatted.
        bind (run_radon_analysis L tf) (\<lambda>complexity_data.
        ret \<lparr>lint_issues = issues, formatting_needed = snd formatted,
             formatted_code = fst formatted, complexity = complexity_data\<rparr>)) w5 = (Return a, w4)"
    by blast
  from bind_eq_Return[OF b2] obtain p w6 where
    black: "run_black_analysis L src w5 = (Return p, w6)"
    and b3: "bind (run_radon_analysis L tf) (\<lambda>complexity_data.
        ret \<lparr>lint_issues = issues, formatting_needed = snd p,
             formatted_code = fst p, complexity = complexity_data\<rparr>) w6 = (Return a, w4)"
    by blast
  from bind_eq_Return[OF b3] obtain cd w8 where
    "ret \<lparr>lint_issues = issues, formatting_needed = snd p,
             formatted_code = fst p, complexity = cd\<rparr> w8 = (Return a, w4)"
    by blast
  then have "a = \<lparr>lint_issues = issues, formatting_needed = snd p,
             formatted_code = fst p, complexity = cd\<rparr>"
    by (simp add: ret_def)
  with black show ?thesis by auto
qed

lemmas analysis_defs =
  analyze_python_code_def run_flake8_analysis_def flake8_json_issues_def flake8_sentinel_def
  sentinel_def run_black_analysis_def run_radon_analysis_def radon_error_def has_key_def
  dict_update_def basic_ast_analysis_def ast_walk_def cc_block_def mi_block_def

text \<open>
  Claim C10. Whenever \<^verbatim>\<open>analyze_python_code\<close> returns a result whose
  \<^verbatim>\<open>formatting_needed\<close> is false, whatever the reason (the diff of the formatter is
  empty or white space only, the formatter is missing, runs into its time limit, or
  raises anything else), \<^verbatim>\<open>formatted_code\<close> is the source text that was passed in.
\<close>

theorem formatted_code_is_source_when_no_formatting_needed:
  assumes "fst (analyze_python_code L src w) = Return a"
    and "\<not> formatting_needed a"
  shows "formatted_code a = src"
proof -
  from assms(1) have "analyze_python_code L src w = (Return a, snd (analyze_python_code L src w))"
    by (metis prod.collapse)
  from analyze_formatted_from_black[OF this] obtain p v v' where
    "run_black_analysis L src v = (Return p, v')"
    "formatting_needed a = snd p" "formatted_code a = fst p"
    by blast
  with assms(2) run_black_unchanged show ?thesis by metis
qed

text \<open>No analysis tool is installed: every launch raises \<^verbatim>\<open>FileNotFoundError\<close>.\<close>

theorem formatted_code_is_source_when_no_formatting_needed_witness:
  "\<exists>a. fst (analyze_python_code plain_lib (lit ''x = 1'')
              (calm_world (Raises (FileNotFoundError (lit ''[Errno 2] No such file or directory'')))))
          = Return a
       \<and> \<not> formatting_needed a \<and> formatted_code a = lit ''x = 1''"
proof -
  let ?w = "calm_world (Raises (FileNotFoundError (lit ''[Errno 2] No such file or directory'')))"
  have "\<exists>a. fst (analyze_python_code plain_lib (lit ''x = 1'') ?w) = Return a \<and> \<not> formatting_needed a"
    by (simp add: analysis_defs calm_world_def scripted_world_def plain_lib_def run_defs)
  then obtain a where a: "fst (analyze_python_code plain_lib (lit ''x = 1'') ?w) = Return a"
    and n: "\<not> formatting_needed a" by blast
  from formatted_code_is_source_when_no_formatting_needed[OF a n] a n show ?thesis by blast
qed

subsection \<open>What a launch changes\<close>

lemma subprocess_run_world:
  assumes "subprocess_run args timeout w = (r, w')"
  shows "files w' = files w \<and> dirs w' = dirs w \<and> tmp_names w' = tmp_names w
         \<and> io_faults w' = io_faults w
         \<and> (\<exists>ex. launched w' = launched w @ [\<lparr>argv = args, expired = ex\<rparr>])"
  using assms
  by (auto simp: subprocess_run_def log_launch_def split: child.splits option.splits if_splits)

lemma run_text_world:
  assumes "run_text args timeout w = (r, w')"
  shows "files w' = files w \<and> dirs w' = dirs w \<and> tmp_names w' = tmp_names w
         \<and> io_faults w' = io_faults w
         \<and> (\<exists>ex. launched w' = launched w @ [\<lparr>argv = args, expired = ex\<rparr>])"
proof -
  obtain r0 w0 where s: "subprocess_run args timeout w = (r0, w0)"
    by (cases "subprocess_run args timeout w")
  with assms have "w' = w0"
    by (auto simp: run_text_def bind_def ret_def split: outcome.splits prod.splits)
  with subprocess_run_world[OF s] show ?thesis by simp
qed

lemma run_bytes_world:
  assumes "run_bytes args timeout w = (r, w')"
  shows "files w' = files w \<and> dirs w' = dirs w \<and> tmp_names w' = tmp_names w
         \<and> io_faults w' = io_faults w
         \<and> (\<exists>ex. launched w' = launched w @ [\<lparr>argv = args, expired = ex\<rparr>])"
proof -
  obtain r0 w0 where s: "subprocess_run args timeout w = (r0, w0)"
    by (cases "subprocess_run args timeout w")
  with assms have "w' = w0"
    by (auto simp: run_bytes_def bind_def ret_def split: outcome.splits prod.splits)
  with subprocess_run_world[OF s] show ?thesis by simp
qed

lemma run_captured_world:
  assumes "run_captured args timeout w = (r, w')"
  shows "files w' = files w \<and> dirs w' = dirs w \<and> tmp_names w' = tmp_names w
         \<and> io_faults w' = io_faults w
         \<and> (\<exists>new. launched w' = launched w @ new \<and> (\<forall>l \<in> set new. argv l = args))"
proof -
  obtain r1 w1 where t: "run_text args timeout w = (r1, w1)"
    by (cases "run_text args timeout w")
  note t1 = run_text_world[OF t]
  show ?thesis
  proof (cases "\<exists>msg. r1 = Raise (UnicodeDecodeError msg)")
    case True
    then obtain msg where "r1 = Raise (UnicodeDecodeError msg)" by blast
    with assms t have b: "run_bytes args timeout w1 = (r, w')"
      by (simp add: run_captured_def except_unicode_def)
    from run_bytes_world[OF b] t1 show ?thesis by auto
  next
    case False
    with assms t have "w' = w1"
      by (auto simp: run_captured_def except_unicode_def split: outcome.splits exn.splits)
    with t1 show ?thesis by auto
  qed
qed


subsection \<open>Java without a public class\<close>

text \<open>
  Claim C5. When the probe \<^verbatim>\<open>java --version\<close> has returned exit code 0 and the source
  has no match of \<^verbatim>\<open>public\s+class\s+(\w+)\<close>, \<^verbatim>\<open>execute_java_code\<close> returns the
  empty output with the text \<^verbatim>\<open>Error: No public class found in Java code\<close>, and it does
  so in the world the probe left: no file and no directory has been created, and every
  child launched by the call is the probe (no compiler, no run).
\<close>

theorem java_without_public_class_fails_fast:
  assumes "run_captured [lit ''java'', lit ''--version''] None w = (Return java_check, w1)"
    and "returncode java_check = 0"
    and "search_public_class L src = None"
  shows "execute_java_code L src w
           = (Return ([], lit ''Error: No public class found in Java code''), w1)
         \<and> files w1 = files w \<and> dirs w1 = dirs w
         \<and> (\<forall>l \<in> set (drop (length (launched w)) (launched w1)).
               argv l = [lit ''java'', lit ''--version''])"
proof -
  have "execute_java_code L src w
          = (Return ([], lit ''Error: No public class found in Java code''), w1)"
    unfolding execute_java_code_def
    using assms by (simp add: catch_def bind_def ret_def)
  moreover from run_captured_world[OF assms(1)]
  have "files w1 = files w \<and> dirs w1 = dirs w
         \<and> (\<forall>l \<in> set (drop (length (launched w)) (launched w1)).
               argv l = [lit ''java'', lit ''--version''])"
    by auto
  ultimately show ?thesis by simp
qed

text \<open>A class that is not public, with the Java runtime present.\<close>

theorem java_without_public_class_fails_fast_witness:
  "search_public_class plain_lib (lit ''class Foo { }'') = None
   \<and> fst (execute_java_code plain_lib (lit ''class Foo { }'') (calm_world (Exits 1 0 [] [])))
       = Return ([], lit ''Error: No public class found in Java code'')
   \<and> files (snd (execute_java_code plain_lib (lit ''class Foo { }'') (calm_world (Exits 1 0 [] []))))
       = Map.empty
   \<and> map argv (launched (snd (execute_java_code plain_lib (lit ''class Foo { }'')
                                  (calm_world (Exits 1 0 [] [])))))
       = [[lit ''java'', lit ''--version'']]"
proof -
  let ?w = "calm_world (Exits 1 0 [] [])"
  have s: "search_public_class plain_lib (lit ''class Foo { }'') = None"
    by (simp add: match_public_class_def lit_def)
  obtain c w1 where p: "run_captured [lit ''java'', lit ''--version''] None ?w = (Return c, w1)"
    and c: "returncode c = 0"
    and w1: "files w1 = Map.empty"
            "map argv (launched w1) = [[lit ''java'', lit ''--version'']]"
    by (simp add: calm_world_def scripted_world_def run_defs)
  from java_without_public_class_fails_fast[OF p c s] s w1 show ?thesis by simp
qed

subsection \<open>Java compile error\<close>

text \<open>
  Claim C7. Take a source in which a public class \<open>class_name\<close> is found, after a probe
  that returned exit code 0; the temporary directory is made and the source written to
  \<^verbatim>\<open><temp_dir>/<class_name>.java\<close>. When the launch of \<^verbatim>\<open>javac\<close> on that file
  completes with an exit code other than 0, \<^verbatim>\<open>execute_java_code\<close> returns the empty
  output with the text \<^verbatim>\<open>Compilation Error: \<close> followed by the standard error of the
  compiler, in the world the compiler launch left: no child is launched after the
  compiler, so the compiled class is never run.
\<close>

theorem java_compile_error_skips_run:
  assumes "run_captured [lit ''java'', lit ''--version''] None w = (Return java_check, w1)"
    and "returncode java_check = 0"
    and "search_public_class L src = Some class_name"
    and "mkdtemp w1 = (Return temp_dir, w2)"
    and "open_w (os_path_join temp_dir (class_name @ lit ''.java'')) w2 = (Return (), w3)"
    and "write_text (os_path_join temp_dir (class_name @ lit ''.java'')) src w3 = (Return (), w4)"
    and "run_captured
           [lit ''javac'', lit ''-encoding'', lit ''UTF-8'', os_path_join temp_dir (class_name @ lit ''.java'')]
           (Some 10) w4 = (Return compile_result, w5)"
    and "returncode compile_result \<noteq> 0"
  shows "execute_java_code L src w
           = (Return ([], lit ''Compilation Error: '' @ stderr compile_result), w5)
         \<and> (\<forall>l \<in> set (drop (length (launched w)) (launched w5)).
               argv l = [lit ''java'', lit ''--version'']
               \<or> argv l = [lit ''javac'', lit ''-encoding'', lit ''UTF-8'',
                            os_path_join temp_dir (class_name @ lit ''.java'')])"
proof -
  have "execute_java_code L src w
          = (Return ([], lit ''Compilation Error: '' @ stderr compile_result), w5)"
    unfolding execute_java_code_def
    using assms by (simp add: catch_def bind_def ret_def)
  moreover
  from run_captured_world[OF assms(1)] obtain new1 where
    n1: "launched w1 = launched w @ new1" "\<forall>l \<in> set new1. argv l = [lit ''java'', lit ''--version'']"
    by blast
  from assms(4) have l2: "launched w2 = launched w1"
    by (auto simp: mkdtemp_def bind_def io_fault_def Let_def split: option.splits)
  from assms(5) have l3: "launched w3 = launched w2"
    by (auto simp: open_w_def bind_def io_fault_def Let_def split: option.splits)
  from assms(6) have l4: "launched w4 = launched w3"
    by (auto simp: write_text_def bind_def io_fault_def Let_def split: option.splits)
  from run_captured_world[OF assms(7)] obtain new2 where
    n2: "launched w5 = launched w4 @ new2"
        "\<forall>l \<in> set new2. argv l = [lit ''javac'', lit ''-encoding'', lit ''UTF-8'',
                                    os_path_join temp_dir (class_name @ lit ''.java'')]"
    by blast
  have "launched w5 = launched w @ (new1 @ new2)"
    using n1(1) l2 l3 l4 n2(1) by simp
  then have "drop (length (launched w)) (launched w5) = new1 @ new2" by simp
  with n1(2) n2(2)
  have "\<forall>l \<in> set (drop (length (launched w)) (launched w5)).
               argv l = [lit ''java'', lit ''--version'']
               \<or> argv l = [lit ''javac'', lit ''-encoding'', lit ''UTF-8'',
                            os_path_join temp_dir (class_name @ lit ''.java'')]"
    by auto
  ultimately show ?thesis by simp
qed

text \<open>
  A source with a missing semicolon: the probe exits with 0, the compiler exits with 1
  after writing \<^verbatim>\<open>E\<close> to standard error.
\<close>

theorem java_compile_error_skips_run_witness:
  "fst (execute_java_code plain_lib (lit ''public class A { int x }'')
          (scripted_world (\<lambda>n. if n = 0 then Exits 1 0 [] [] else Exits 2 1 [] [69])))
     = Return ([], lit ''Compilation Error: E'')
   \<and> map argv (launched (snd (execute_java_code plain_lib (lit ''public class A { int x }'')
          (scripted_world (\<lambda>n. if n = 0 then Exits 1 0 [] [] else Exits 2 1 [] [69])))))
     = [[lit ''java'', lit ''--version''],
        [lit ''javac'', lit ''-encoding'', lit ''UTF-8'', lit ''/tmp/tmp0/A.java'']]"
proof -
  let ?w = "scripted_world (\<lambda>n. if n = 0 then Exits 1 0 [] [] else Exits 2 1 [] [69])"
  let ?f = "lit ''/tmp/tmp0/A.java''"
  have s: "search_public_class plain_lib (lit ''public class A { int x }'') = Some (lit ''A'')"
    by (simp add: match_public_class_def is_space_def is_word_def lit_def plain_lib_def)
  obtain c w1 where p: "run_captured [lit ''java'', lit ''--version''] None ?w = (Return c, w1)"
    and c: "returncode c = 0"
    and w1: "io_faults w1 = (\<lambda>n. None)" "tmp_names w1 = (\<lambda>n. lit ''/tmp/tmp0'')"
            "children w1 = (\<lambda>n. Exits 2 1 [] [69])"
            "map argv (launched w1) = [[lit ''java'', lit ''--version'']]"
    by (simp add: scripted_world_def run_defs)
  obtain w2 where m: "mkdtemp w1 = (Return (lit ''/tmp/tmp0''), w2)"
    and w2: "io_faults w2 = (\<lambda>n. None)" "children w2 = children w1" "launched w2 = launched w1"
    using w1 by (simp add: run_defs)
  have j: "os_path_join (lit ''/tmp/tmp0'') (lit ''A'' @ lit ''.java'') = ?f"
    by (simp add: os_path_join_def lit_def)
  obtain w3 where opn: "open_w ?f w2 = (Return (), w3)"
    and w3: "io_faults w3 = (\<lambda>n. None)" "children w3 = children w1" "launched w3 = launched w1"
    using w2 by (simp add: run_defs)
  obtain w4 where wr: "write_text ?f (lit ''public class A { int x }'') w3 = (Return (), w4)"
    and w4: "children w4 = children w1" "launched w4 = launched w1"
    using w3 by (simp add: run_defs)
  obtain cr w5 where k: "run_captured [lit ''javac'', lit ''-encoding'', lit ''UTF-8'', ?f]
                           (Some 10) w4 = (Return cr, w5)"
    and cr: "returncode cr \<noteq> 0" "stderr cr = lit ''E''"
    and w5: "map argv (launched w5)
               = [[lit ''java'', lit ''--version''], [lit ''javac'', lit ''-encoding'', lit ''UTF-8'', ?f]]"
    using w4 w1
    by (simp add: run_defs plain_lib_def )
  from java_compile_error_skips_run[OF p c s m opn[folded j] wr[folded j] k[folded j] cr(1)]
  have "execute_java_code plain_lib (lit ''public class A { int x }'') ?w
          = (Return ([], lit ''Compilation Error: '' @ stderr cr), w5)"
    by simp
  with cr(2) w5 show ?thesis by simp
qed

subsection \<open>JavaScript runtime not reachable\<close>

lemma node_probe_nonzero:
  assumes "run_captured [lit ''node'', lit ''--version''] None w = (Return node_check, w1)"
    and "returncode node_check \<noteq> 0"
  shows "execute_javascript_code L src w
           = (Return ([], lit ''Error: Node.js is not installed or not in PATH''), w1)"
  unfolding execute_javascript_code_def
  using assms by (simp add: catch_def bind_def ret_def)

text \<open>
  Claim C6, at the input where it fails. No \<^verbatim>\<open>node\<close> binary is on the path, so
  \<^verbatim>\<open>subprocess.run(['node', '--version'], ...)\<close> raises \<^verbatim>\<open>FileNotFoundError\<close>
  instead of returning an exit code. The test of the exit code is never reached; the
  handler \<^verbatim>\<open>except Exception\<close> returns the text of the exception after
  \<^verbatim>\<open>Error: \<close>, which is not the text
  \<^verbatim>\<open>Error: Node.js is not installed or not in PATH\<close>. Nothing is written and only the
  probe is launched.
\<close>

theorem node_missing_gives_other_message:
  "fst (execute_javascript_code plain_lib (lit ''console.log(1)'')
          (calm_world (Raises (no_such_file (lit ''node'')))))
     = Return ([], lit ''Error: [Errno 2] No such file or directory: ''
                     @ [39] @ lit ''node'' @ [39])
   \<and> fst (execute_javascript_code plain_lib (lit ''console.log(1)'')
            (calm_world (Raises (no_such_file (lit ''node'')))))
       \<noteq> Return ([], lit ''Error: Node.js is not installed or not in PATH'')
   \<and> files (snd (execute_javascript_code plain_lib (lit ''console.log(1)'')
                   (calm_world (Raises (no_such_file (lit ''node'')))))) = Map.empty
   \<and> map argv (launched (snd (execute_javascript_code plain_lib (lit ''console.log(1)'')
                   (calm_world (Raises (no_such_file (lit ''node'')))))))
       = [[lit ''node'', lit ''--version'']]"
  by (simp add: execute_javascript_code_def calm_world_def scripted_world_def run_defs)

subsection \<open>Temporary artifacts\<close>

text \<open>
  Claim C2, at inputs where it fails. \<^verbatim>\<open>execute_python_code\<close> deletes its temporary
  file after the launch, outside any \<^verbatim>\<open>finally\<close>: when the interpreter is still
  running at the time limit, \<^verbatim>\<open>TimeoutExpired\<close> goes to the handler, which returns
  without deleting, and the file written by the call is still on disk with the source in
  it. In the same way \<^verbatim>\<open>execute_java_code\<close> returns on a compile error before
  \<^verbatim>\<open>shutil.rmtree\<close>: the directory and the source file in it stay.
\<close>

theorem timeout_leaves_temp_file:
  "files (calm_world Forever) (lit ''/tmp/tmp0.py'') = None
   \<and> fst (execute_python_code plain_lib (lit ''while True: pass'') (calm_world Forever))
       = Return ([], lit ''Error: Code execution timed out (10 seconds limit)'')
   \<and> files (snd (execute_python_code plain_lib (lit ''while True: pass'') (calm_world Forever)))
         (lit ''/tmp/tmp0.py'')
       = Some (lit ''while True: pass'')
   \<and> fst (execute_java_code plain_lib (lit ''public class A { int x }'')
            (scripted_world (\<lambda>n. if n = 0 then Exits 1 0 [] [] else Exits 2 1 [] [69])))
       = Return ([], lit ''Compilation Error: E'')
   \<and> lit ''/tmp/tmp0'' \<in> dirs (snd (execute_java_code plain_lib (lit ''public class A { int x }'')
            (scripted_world (\<lambda>n. if n = 0 then Exits 1 0 [] [] else Exits 2 1 [] [69]))))
   \<and> files (snd (execute_java_code plain_lib (lit ''public class A { int x }'')
            (scripted_world (\<lambda>n. if n = 0 then Exits 1 0 [] [] else Exits 2 1 [] [69]))))
         (lit ''/tmp/tmp0/A.java'')
       = Some (lit ''public class A { int x }'')"
  by (simp add: execute_python_code_def execute_java_code_def calm_world_def
        scripted_world_def run_defs plain_lib_def match_public_class_def is_space_def
        is_word_def)

text \<open>
  The analysis has its clean-up in a \<^verbatim>\<open>finally\<close>: with every tool running into its
  time limit, the temporary file is gone when the call returns; and so is the file of
  \<^verbatim>\<open>execute_python_code\<close> when the interpreter exits in time.
\<close>

lemma analyze_removes_temp_file_on_timeouts:
  "files (snd (analyze_python_code plain_lib (lit ''x = 1'') (calm_world Forever))) = Map.empty"
  by (simp add: analysis_defs calm_world_def scripted_world_def plain_lib_def run_defs)

lemma execute_python_removes_temp_file_on_exit:
  "files (snd (execute_python_code plain_lib (lit ''print(1)'') (calm_world (Exits 1 0 [49] []))))
     = Map.empty"
  by (simp add: execute_python_code_def calm_world_def scripted_world_def plain_lib_def run_defs)

subsection \<open>Decoding of captured output\<close>




subsection \<open>A child that outlives the time limit\<close>

lemma search_public_class_examples:
  "search_public_class plain_lib (lit ''public class '' @ [201, 116] @ lit '' { }'')
     = Some [201, 116]"
  "search_public_class plain_lib (lit ''public'' @ [160] @ lit ''class A'') = Some (lit ''A'')"
  "search_public_class plain_lib (lit ''public class Caf'' @ [233] @ lit '' {'') = Some (lit ''Caf'' @ [233])"
  "search_public_class plain_lib (lit ''xpublic class A1_b{}'') = Some (lit ''A1_b'')"
  "search_public_class plain_lib (lit ''public class public class B'') = Some (lit ''public'')"
  "search_public_class plain_lib (lit ''publicclass A'') = None"
  "search_public_class plain_lib (lit ''public class  '') = None"
  by (simp_all add: match_public_class_def is_space_def is_word_def lit_def plain_lib_def)

text \<open>
  Claim C3, from what the child does. In each of the four places where \<open>execute\<close>
  launches a child with the time limit of 10 seconds, let everything before that launch
  succeed (the probe of the runtime exits with code 0, the temporary file or directory is
  written, for the run step of Java the compiler exits in time with code 0) and let the
  child not have exited after 10 seconds: it never exits, or it exits later, whatever it
  has written by then. Then \<open>execute\<close> returns the empty standard output together with
  the fixed text \<^verbatim>\<open>Error: Code execution timed out (10 seconds limit)\<close>.
  \<^item> Python: the interpreter is the first child.
  \<^item> JavaScript: the probe is the first child, \<^verbatim>\<open>node\<close> on the source the second.
  \<^item> Java, compile step: the probe is the first child, \<^verbatim>\<open>javac\<close> the second.
  \<^item> Java, run step: \<^verbatim>\<open>java\<close> on the compiled class is the third child.
\<close>

theorem outliving_child_gives_fixed_message:
  "(io_faults w 0 = None \<and> io_faults w 1 = None \<and> outlives 10 (children w 0)
      \<longrightarrow> fst (execute L src Python w)
            = Return ([], lit ''Error: Code execution timed out (10 seconds limit)''))
   \<and> (children w 0 = Exits d 0 out err
        \<and> io_faults w 0 = None \<and> io_faults w 1 = None \<and> outlives 10 (children w 1)
      \<longrightarrow> fst (execute L src JavaScript w)
            = Return ([], lit ''Error: Code execution timed out (10 seconds limit)''))
   \<and> (children w 0 = Exits d 0 out err \<and> search_public_class L src = Some class_name
        \<and> io_faults w 0 = None \<and> io_faults w 1 = None \<and> io_faults w 2 = None
        \<and> outlives 10 (children w 1)
      \<longrightarrow> fst (execute L src Java w)
            = Return ([], lit ''Error: Code execution timed out (10 seconds limit)''))
   \<and> (children w 0 = Exits d 0 out err \<and> search_public_class L src = Some class_name
        \<and> io_faults w 0 = None \<and> io_faults w 1 = None \<and> io_faults w 2 = None
        \<and> children w 1 = Exits d' 0 out' err' \<and> d' \<le> 10
        \<and> outlives 10 (children w 2)
      \<longrightarrow> fst (execute L src Java w)
            = Return ([], lit ''Error: Code execution timed out (10 seconds limit)''))"
proof (intro conjI impI)
  assume "io_faults w 0 = None \<and> io_faults w 1 = None \<and> outlives 10 (children w 0)"
  then show "fst (execute L src Python w)
            = Return ([], lit ''Error: Code execution timed out (10 seconds limit)'')"
    by (cases "children w 0")
       (simp_all add: execute_def execute_python_code_def run_defs)
next
  assume "children w 0 = Exits d 0 out err
        \<and> io_faults w 0 = None \<and> io_faults w 1 = None \<and> outlives 10 (children w 1)"
  then show "fst (execute L src JavaScript w)
            = Return ([], lit ''Error: Code execution timed out (10 seconds limit)'')"
    by (cases "children w 1")
       (simp_all add: execute_def execute_javascript_code_def run_defs)
next
  assume "children w 0 = Exits d 0 out err \<and> search_public_class L src = Some class_name
        \<and> io_faults w 0 = None \<and> io_faults w 1 = None \<and> io_faults w 2 = None
        \<and> outlives 10 (children w 1)"
  then show "fst (execute L src Java w)
            = Return ([], lit ''Error: Code execution timed out (10 seconds limit)'')"
    by (cases "children w 1")
       (simp_all add: execute_def execute_java_code_def run_defs numeral_2_eq_2)
next
  assume "children w 0 = Exits d 0 out err \<and> search_public_class L src = Some class_name
        \<and> io_faults w 0 = None \<and> io_faults w 1 = None \<and> io_faults w 2 = None
        \<and> children w 1 = Exits d' 0 out' err' \<and> d' \<le> 10
        \<and> outlives 10 (children w 2)"
  then show "fst (execute L src Java w)
            = Return ([], lit ''Error: Code execution timed out (10 seconds limit)'')"
    by (cases "children w 2")
       (simp_all add: execute_def execute_java_code_def run_defs numeral_2_eq_2)
qed

text \<open>
  An interpreter that never exits; a script that has written \<^verbatim>\<open>Hi\<close> when it exits after
  11 seconds; a compiler that never exits; and a compiled class that never exits.
\<close>

theorem outliving_child_gives_fixed_message_witness:
  "fst (execute plain_lib (lit ''while True: pass'') Python (calm_world Forever))
     = Return ([], lit ''Error: Code execution timed out (10 seconds limit)'')
   \<and> fst (execute plain_lib (lit ''console.log(1)'') JavaScript
            (scripted_world (\<lambda>n. if n = 0 then Exits 1 0 [] [] else Exits 11 0 [72, 105] [])))
     = Return ([], lit ''Error: Code execution timed out (10 seconds limit)'')
   \<and> fst (execute plain_lib (lit ''public class A { }'') Java
            (scripted_world (\<lambda>n. if n = 0 then Exits 1 0 [] [] else Forever)))
     = Return ([], lit ''Error: Code execution timed out (10 seconds limit)'')
   \<and> fst (execute plain_lib (lit ''public class A { }'') Java
            (scripted_world (\<lambda>n. if n < 2 then Exits 1 0 [] [] else Forever)))
     = Return ([], lit ''Error: Code execution timed out (10 seconds limit)'')"
proof -
  let ?js = "scripted_world (\<lambda>n. if n = 0 then Exits 1 0 [] [] else Exits 11 0 [72, 105] [])"
  let ?jc = "scripted_world (\<lambda>n. if n = 0 then Exits 1 0 [] [] else Forever)"
  let ?jr = "scripted_world (\<lambda>n. if n < 2 then Exits 1 0 [] [] else Forever)"
  have s: "search_public_class plain_lib (lit ''public class A { }'') = Some (lit ''A'')"
    by (simp add: match_public_class_def is_space_def is_word_def lit_def plain_lib_def)
  have py: "io_faults (calm_world Forever) 0 = None \<and> io_faults (calm_world Forever) 1 = None
        \<and> outlives 10 (children (calm_world Forever) 0)"
    by (simp add: calm_world_def scripted_world_def)
  have js: "children ?js 0 = Exits 1 0 [] []
        \<and> io_faults ?js 0 = None \<and> io_faults ?js 1 = None \<and> outlives 10 (children ?js 1)"
    by (simp add: scripted_world_def)
  have jc: "children ?jc 0 = Exits 1 0 [] []
        \<and> io_faults ?jc 0 = None \<and> io_faults ?jc 1 = None \<and> io_faults ?jc 2 = None
        \<and> outlives 10 (children ?jc 1)"
    by (simp add: scripted_world_def)
  have jr: "children ?jr 0 = Exits 1 0 [] []
        \<and> io_faults ?jr 0 = None \<and> io_faults ?jr 1 = None \<and> io_faults ?jr 2 = None
        \<and> children ?jr 1 = Exits 1 0 [] [] \<and> (1::real) \<le> 10
        \<and> outlives 10 (children ?jr 2)"
    by (simp add: scripted_world_def)
  from outliving_child_gives_fixed_message[where L = plain_lib and w = "calm_world Forever"
        and src = "lit ''while True: pass''"] py
  have r1: "fst (execute plain_lib (lit ''while True: pass'') Python (calm_world Forever))
     = Return ([], lit ''Error: Code execution timed out (10 seconds limit)'')"
    by blast
  from outliving_child_gives_fixed_message[where L = plain_lib and w = ?js
        and src = "lit ''console.log(1)''" and d = 1 and out = "[]" and err = "[]"] js
  have r2: "fst (execute plain_lib (lit ''console.log(1)'') JavaScript ?js)
     = Return ([], lit ''Error: Code execution timed out (10 seconds limit)'')"
    by blast
  from outliving_child_gives_fixed_message[where L = plain_lib and w = ?jc
        and src = "lit ''public class A { }''" and d = 1 and out = "[]" and err = "[]"
        and class_name = "lit ''A''"] jc s
  have r3: "fst (execute plain_lib (lit ''public class A { }'') Java ?jc)
     = Return ([], lit ''Error: Code execution timed out (10 seconds limit)'')"
    by blast
  from outliving_child_gives_fixed_message[where L = plain_lib and w = ?jr
        and src = "lit ''public class A { }''" and d = 1 and out = "[]" and err = "[]"
        and class_name = "lit ''A''" and d' = 1 and out' = "[]" and err' = "[]"] jr s
  have r4: "fst (execute plain_lib (lit ''public class A { }'') Java ?jr)
     = Return ([], lit ''Error: Code execution timed out (10 seconds limit)'')"
    by blast
  from r1 r2 r3 r4 show ?thesis by blast
qed

subsection \<open>Programs that end, return, and keep the files\<close>


































subsection \<open>The three analyses always return\<close>












subsection \<open>The fallback analysis\<close>

lemma count_walk_queue:
  "length (filter (\<lambda>n. P (class_of n)) (walk_queue q)) = sum_list (map (count_nodes P) q)"
  by (induction q rule: walk_queue.induct) simp_all

lemma count_ast_walk:
  "length (filter (\<lambda>n. P (class_of n)) (ast_walk tree)) = count_nodes P tree"
  by (simp add: ast_walk_def count_walk_queue)

lemma basic_ast_analysis_parsed:
  assumes "io_faults w 0 = None" and "files w file_path = Some src"
    and "ast_parse L src = Inr tree"
  shows "fst (basic_ast_analysis L file_path w)
     = Return [(lit ''function_count'', JInt (int (count_nodes (\<lambda>c. c = FunctionDef) tree))),
               (lit ''class_count'', JInt (int (count_nodes (\<lambda>c. c = ClassDef) tree))),
               (lit ''control_flow_count'',
                  JInt (int (count_nodes (\<lambda>c. c \<in> {If_stmt, For, While, Try}) tree))),
               (lit ''estimated_complexity'',
                  JInt (int (count_nodes (\<lambda>c. c \<in> {If_stmt, For, While, Try}) tree)
                        + int (count_nodes (\<lambda>c. c = FunctionDef) tree))),
               (lit ''analysis_type'', JStr (lit ''basic_ast''))]"
  using assms
  by (simp add: basic_ast_analysis_def catch_def bind_def read_text_def io_fault_def lift_def
        ret_def Let_def
        count_ast_walk[of "\<lambda>c. c = FunctionDef"] count_ast_walk[of "\<lambda>c. c = ClassDef"]
        count_ast_walk[of "\<lambda>c. c = If_stmt \<or> c = For \<or> c = While \<or> c = Try"])

text \<open>
  Claim C9, as the code has it. When the launch of \<^verbatim>\<open>radon cc\<close> raises (the tool is
  missing, runs into its time limit, or anything else; the launch of \<^verbatim>\<open>radon mi\<close> is
  then not attempted), the temporary file can be read and its text parses as Python,
  the complexity report is the error text of the handler followed by the counts of the
  fallback: the numbers of \<^verbatim>\<open>FunctionDef\<close> nodes, of \<^verbatim>\<open>ClassDef\<close> nodes and of
  \<^verbatim>\<open>If\<close>, \<^verbatim>\<open>For\<close>, \<^verbatim>\<open>While\<close> and \<^verbatim>\<open>Try\<close> nodes at any depth of the tree,
  \<^verbatim>\<open>estimated_complexity\<close> as the sum of the third and the first, and
  \<^verbatim>\<open>analysis_type\<close> \<^verbatim>\<open>basic_ast\<close>.
\<close>

theorem radon_failure_falls_back_to_ast_counts:
  assumes "run_captured [lit ''radon'', lit ''cc'', lit ''-j'', file_path] (Some 30) w = (Raise e, w1)"
    and "io_faults w1 0 = None"
    and "files w1 file_path = Some src"
    and "ast_parse L src = Inr tree"
  shows "fst (run_radon_analysis L file_path w)
     = Return (radon_error e [] @
              [(lit ''function_count'', JInt (int (count_nodes (\<lambda>c. c = FunctionDef) tree))),
               (lit ''class_count'', JInt (int (count_nodes (\<lambda>c. c = ClassDef) tree))),
               (lit ''control_flow_count'',
                  JInt (int (count_nodes (\<lambda>c. c \<in> {If_stmt, For, While, Try}) tree))),
               (lit ''estimated_complexity'',
                  JInt (int (count_nodes (\<lambda>c. c \<in> {If_stmt, For, While, Try}) tree)
                        + int (count_nodes (\<lambda>c. c = FunctionDef) tree))),
               (lit ''analysis_type'', JStr (lit ''basic_ast''))])"
proof -
  let ?report =
    "[(lit ''function_count'', JInt (int (count_nodes (\<lambda>c. c = FunctionDef) tree))),
      (lit ''class_count'', JInt (int (count_nodes (\<lambda>c. c = ClassDef) tree))),
      (lit ''control_flow_count'',
         JInt (int (count_nodes (\<lambda>c. c \<in> {If_stmt, For, While, Try}) tree))),
      (lit ''estimated_complexity'',
         JInt (int (count_nodes (\<lambda>c. c \<in> {If_stmt, For, While, Try}) tree)
               + int (count_nodes (\<lambda>c. c = FunctionDef) tree))),
      (lit ''analysis_type'', JStr (lit ''basic_ast''))]"
  have first: "catch
          (bind (run_captured [lit ''radon'', lit ''cc'', lit ''-j'', file_path] (Some 30)) (\<lambda>cc_result.
           bind (lift (cc_block L file_path cc_result [])) (\<lambda>complexity_data.
           catch
             (bind (run_captured [lit ''radon'', lit ''mi'', lit ''-j'', file_path] (Some 30))
                (\<lambda>mi_result. lift (mi_block L file_path mi_result complexity_data)))
             (\<lambda>e. ret (radon_error e complexity_data)))))
          (\<lambda>e. ret (radon_error e [])) w = (Return (radon_error e []), w1)"
    by (simp add: catch_def bind_def ret_def assms(1))
  obtain w2 where basic: "basic_ast_analysis L file_path w1 = (Return ?report, w2)"
    using basic_ast_analysis_parsed[OF assms(2,3,4)]
    by (cases "basic_ast_analysis L file_path w1") simp
  have key: "has_key (radon_error e []) (lit ''error'')"
    by (simp add: has_key_def radon_error_def)
  have upd: "dict_update (radon_error e []) ?report = radon_error e [] @ ?report"
    by (simp add: dict_update_def radon_error_def)
  have second: "catch
          (bind (basic_ast_analysis L file_path) (\<lambda>basic.
           ret (dict_update (radon_error e []) basic)))
          (\<lambda>x. ret (radon_error e [])) w1
        = (Return (radon_error e [] @ ?report), w2)"
    unfolding catch_def bind_def ret_def basic
    by (simp only: upd prod.case outcome.case)
  show ?thesis
    unfolding run_radon_analysis_def
    by (subst bind_def) (simp add: first key second)
qed

text \<open>
  Radon is not installed; the source is the fixture with two function definitions, one
  class and four control-flow statements.
\<close>

theorem radon_failure_falls_back_to_ast_counts_witness:
  "fst (run_radon_analysis fixture_lib (lit ''/tmp/tmp0.py'')
          ((calm_world (Raises (FileNotFoundError (lit ''[Errno 2] No such file or directory''))))
             \<lparr>files := [lit ''/tmp/tmp0.py'' \<mapsto> lit ''def f(xs): ...'']\<rparr>))
     = Return [(lit ''error'', JStr (lit ''Radon not installed. Install with: pip install radon'')),
               (lit ''function_count'', JInt 2),
               (lit ''class_count'', JInt 1),
               (lit ''control_flow_count'', JInt 4),
               (lit ''estimated_complexity'', JInt 6),
               (lit ''analysis_type'', JStr (lit ''basic_ast''))]"
proof -
  let ?e = "FileNotFoundError (lit ''[Errno 2] No such file or directory'')"
  let ?w = "(calm_world (Raises ?e))\<lparr>files := [lit ''/tmp/tmp0.py'' \<mapsto> lit ''def f(xs): ...'']\<rparr>"
  obtain w1 where r: "run_captured [lit ''radon'', lit ''cc'', lit ''-j'', lit ''/tmp/tmp0.py'']
                        (Some 30) ?w = (Raise ?e, w1)"
    and f: "io_faults w1 0 = None" "files w1 (lit ''/tmp/tmp0.py'') = Some (lit ''def f(xs): ...'')"
    by (simp add: calm_world_def scripted_world_def run_defs)
  have p: "ast_parse fixture_lib (lit ''def f(xs): ...'') = Inr fixture_tree"
    by (simp add: fixture_lib_def)
  from radon_failure_falls_back_to_ast_counts[OF r f p]
  show ?thesis
    by (simp add: radon_error_def fixture_tree_def)
qed

text \<open>
  The claim as it stands fails for a source that does not parse: with no tool installed,
  the analysis of \<^verbatim>\<open>def f(:\<close> gives a complexity report that holds an error text only,
  with no \<^verbatim>\<open>estimated_complexity\<close> and no mark of the fallback analyzer.
\<close>

theorem unparsable_source_has_no_estimate:
  "fst (analyze_python_code unparsable_lib (lit ''def f(:'')
          (calm_world (Raises (FileNotFoundError (lit ''[Errno 2] No such file or directory'')))))
     = Return \<lparr>lint_issues =
                  [\<lparr>issue_line = JInt 0, issue_column = JInt 0,
                    issue_message =
                      JStr (lit ''Flake8 not installed. Install with: pip install flake8''),
                    issue_code = JStr (lit ''MISSING'')\<rparr>],
                formatting_needed = False,
                formatted_code = lit ''def f(:'',
                complexity =
                  [(lit ''error'',
                    JStr (lit ''Basic AST analysis failed: invalid syntax (<unknown>, line 1)''))]\<rparr>"
  by (simp add: analysis_defs calm_world_def scripted_world_def unparsable_lib_def
        plain_lib_def run_defs)

subsection \<open>Mean, maximum and count of the listed functions\<close>















subsection \<open>Returning to the caller\<close>















end
